theory Spec2Isabelle
  imports Main "HOL-Library.Word" "HOL-Library.Sublist"
begin

section \<open>The transaction controller of pkg/client/transaction/controller.go\<close>

text \<open>
  The controller signs a transaction, broadcasts it and polls for its receipt. Its
  collaborators (the key store, the Ledger signer, the gRPC client, the protobuf
  encoder, SHA-256 and the hexadecimal printer) live outside the file; they are taken
  as parameters, collected in the record \<open>env\<close>. Every call the controller makes to a
  collaborator with an effect is written to a trace, and a collaborator's answer may
  depend on the whole trace so far: the answers of the network may change from one query
  to the next and with the seconds slept in between.

  A Go \<open>[]byte\<close> and a Go \<open>string\<close> are both sequences of bytes, and a HOL \<open>char\<close>
  is one byte, so both are \<open>char list\<close> and the conversion \<open>string(b)\<close> is the
  identity.
\<close>

subsection \<open>Data\<close>

type_synonym bytes = "char list"

text \<open>A Go \<open>error\<close> value, read through its method \<open>Error()\<close>.\<close>

datatype error = MkError (Error: string)

text \<open>
  Modelled from the spec: the protobuf messages \<open>core.Transaction\<close>, \<open>api.Return\<close>,
  \<open>core.TransactionInfo\<close> and \<open>core.ResourceReceipt\<close> are declared in generated code
  outside the source file. The records keep the fields the controller reads or writes:
  a transaction is a raw payload (a pointer, possibly nil) and a list of signatures; an
  acknowledgment is a status code and message bytes; a receipt is a status, a result
  message and the resource usage. Their zero values are what \<open>&T{}\<close> allocates.
  The fields \<open>Result\<close> and \<open>Receipt\<close> of a receipt are \<open>Info_Result\<close> and
  \<open>Info_Receipt\<close> here, and the \<open>Result\<close> of a resource receipt is
  \<open>ContractResult\<close>, since the controller has fields of the same names.
\<close>

datatype TransactionRaw = TransactionRaw bytes

record Transaction =
  RawData :: "TransactionRaw option"
  Signature :: "bytes list"

record Return =
  Code :: "32 word"
  Message :: bytes

record ResourceReceipt =
  EnergyUsage :: "64 word"
  EnergyFee :: "64 word"
  NetUsage :: "64 word"
  NetFee :: "64 word"
  ContractResult :: "32 word"

record TransactionInfo =
  Info_Result :: "32 word"
  ResMessage :: bytes
  Info_Receipt :: "ResourceReceipt option"

definition zero_ResourceReceipt :: ResourceReceipt where
  "zero_ResourceReceipt =
     \<lparr>EnergyUsage = 0, EnergyFee = 0, NetUsage = 0, NetFee = 0, ContractResult = 0\<rparr>"

definition zero_TransactionInfo :: TransactionInfo where
  "zero_TransactionInfo = \<lparr>Info_Result = 0, ResMessage = [], Info_Receipt = None\<rparr>"

text \<open>
  Modelled from the spec: the generated nil-safe getter \<open>(*Transaction).GetRawData\<close>,
  which yields nil on a nil transaction and the raw payload otherwise.
\<close>

definition Tx_GetRawData :: "Transaction option \<Rightarrow> TransactionRaw option" where
  "Tx_GetRawData x = (case x of None \<Rightarrow> None | Some t \<Rightarrow> RawData t)"

text \<open>
  Modelled from the spec: \<open>SignerImpl\<close> is an integer type declared in another file
  of the package, with the two named constants \<open>Software\<close> and \<open>Ledger\<close>; every
  other integer is a value of the type too.
\<close>

datatype SignerImpl = Software | Ledger | OtherImpl int

datatype Account = AccountAt string

record sender =
  Account :: "Account option"

record behavior =
  DryRun :: bool
  SigningImpl :: SignerImpl
  ConfirmationWaitTime :: "32 word"

text \<open>
  The controller. Its pointers \<open>Client\<close> and \<open>Sender.Ks\<close> are the collaborators of
  \<open>env\<close>; pointer fields that may be nil are options.
\<close>

record Controller =
  ExecutionError :: "error option"
  resultError :: "error option"
  Tx :: "Transaction option"
  Sender :: sender
  Behavior :: behavior
  Result :: "Return option"
  Receipt :: "TransactionInfo option"

subsection \<open>Collaborators, trace and outcomes\<close>

datatype event =
    KsSignTx Account "Transaction option"
  | LedgerSignTx bytes
  | ClientBroadcast "Transaction option"
  | ClientGetTransactionInfoByID string
  | Sleep

text \<open>
  Go's \<open>int\<close> is 32 or 64 bits wide, by the platform the SDK is built for. The
  conversion \<open>int(w)\<close> of a \<open>uint32\<close> keeps the value on 64 bits and reads the same
  bits as two's complement on 32 bits, where a \<open>w\<close> of \<open>2^31\<close> or more becomes
  negative.
\<close>

datatype go_arch = Arch32 | Arch64

definition int_of_uint32 :: "go_arch \<Rightarrow> 32 word \<Rightarrow> int" where
  "int_of_uint32 a w = (case a of Arch32 \<Rightarrow> sint w | Arch64 \<Rightarrow> uint w)"

text \<open>
  A Go function returning \<open>(v, err)\<close> returns a pair; the controller tests only
  \<open>err\<close>. The first argument of a collaborator with an effect is the trace before the
  call. The platform is a parameter beside the collaborators.
\<close>

record env =
  Ks_SignTx :: "event list \<Rightarrow> Account \<Rightarrow> Transaction option
                  \<Rightarrow> Transaction option \<times> error option"
  ledger_SignTx :: "event list \<Rightarrow> bytes \<Rightarrow> bytes \<times> error option"
  Client_Broadcast :: "event list \<Rightarrow> Transaction option \<Rightarrow> Return option \<times> error option"
  Client_GetTransactionInfoByID ::
    "event list \<Rightarrow> string \<Rightarrow> TransactionInfo option \<times> error option"
  proto_Marshal :: "TransactionRaw option \<Rightarrow> bytes \<times> error option"
  sha256_Sum :: "bytes \<Rightarrow> bytes"
  common_ToHex :: "bytes \<Rightarrow> string"
  arch :: go_arch

record state =
  ctrl :: Controller
  trace :: "event list"

text \<open>
  A method either returns, with a value and the state it leaves, or panics on a nil
  pointer, leaving the state reached so far.
\<close>

datatype 'r outcome = Returns 'r state | Panics state

fun final :: "'r outcome \<Rightarrow> state" where
  "final (Returns r s) = s"
| "final (Panics s) = s"

text \<open>Sequencing of two statements: a panic of the first skips the second.\<close>

definition and_then :: "'a outcome \<Rightarrow> (state \<Rightarrow> 'b outcome) \<Rightarrow> 'b outcome" where
  "and_then m f = (case m of Returns r s \<Rightarrow> f s | Panics s \<Rightarrow> Panics s)"

definition call :: "event \<Rightarrow> state \<Rightarrow> state" where
  "call ev s = s\<lparr>trace := trace s @ [ev]\<rparr>"

subsection \<open>Printing\<close>

text \<open>The verb \<open>%d\<close> of \<open>fmt\<close> on an unsigned integer: its decimal digits.\<close>

definition digit_char :: "nat \<Rightarrow> char" where
  "digit_char d = ''0123456789'' ! d"

function fmt_d :: "nat \<Rightarrow> string" where
  "fmt_d n = (if n < 10 then [digit_char n] else fmt_d (n div 10) @ [digit_char (n mod 10)])"
  by pat_completeness auto
termination
  by (relation "measure id") auto

declare fmt_d.simps [simp del]

definition fmt_Errorf :: "string \<Rightarrow> error" where
  "fmt_Errorf text = MkError text"

subsection \<open>The methods\<close>

text \<open>
  Each method takes the state and returns an outcome. The controller's own nil
  dereferences are panics: \<open>*C.Sender.Account\<close> on a nil account, \<open>C.Tx.Signature\<close>
  on a nil transaction, \<open>result.Code\<close> and \<open>txi.Result\<close> on a nil answer that came
  without an error. A collaborator is taken to return from every call, and the key store
  to leave the transaction it is handed alone when it fails.
\<close>

definition NewController ::
  "Account option \<Rightarrow> Transaction option \<Rightarrow> (Controller \<Rightarrow> Controller) list \<Rightarrow> Controller" where
  "NewController senderAcct tx options =
     fold (\<lambda>option ctrlr. option ctrlr) options
       \<lparr>ExecutionError = None, resultError = None, Tx = tx,
        Sender = \<lparr>Account = senderAcct\<rparr>,
        Behavior = \<lparr>DryRun = False, SigningImpl = Software, ConfirmationWaitTime = 0\<rparr>,
        Result = None, Receipt = None\<rparr>"

definition GetRawData :: "env \<Rightarrow> Controller \<Rightarrow> bytes \<times> error option" where
  "GetRawData E C = proto_Marshal E (Tx_GetRawData (Tx C))"

definition SignTxForSending :: "env \<Rightarrow> state \<Rightarrow> unit outcome" where
  "SignTxForSending E s =
     (let C = ctrl s in
      if ExecutionError C \<noteq> None then Returns () s
      else
        case Account (Sender C) of
          None \<Rightarrow> Panics s
        | Some acct \<Rightarrow>
            (let s1 = call (KsSignTx acct (Tx C)) s in
             case Ks_SignTx E (trace s) acct (Tx C) of
               (signedTransaction, Some err) \<Rightarrow>
                 Returns () (s1\<lparr>ctrl := C\<lparr>ExecutionError := Some err\<rparr>\<rparr>)
             | (signedTransaction, None) \<Rightarrow>
                 Returns () (s1\<lparr>ctrl := C\<lparr>Tx := signedTransaction\<rparr>\<rparr>)))"

definition HardwareSignTxForSending :: "env \<Rightarrow> state \<Rightarrow> unit outcome" where
  "HardwareSignTxForSending E s =
     (let C = ctrl s in
      if ExecutionError C \<noteq> None then Returns () s
      else
        (let data = fst (GetRawData E C);
             s1 = call (LedgerSignTx data) s in
         case ledger_SignTx E (trace s) data of
           (signature, Some err) \<Rightarrow>
             Returns () (s1\<lparr>ctrl := C\<lparr>ExecutionError := Some err\<rparr>\<rparr>)
         | (signature, None) \<Rightarrow>
             (case Tx C of
                None \<Rightarrow> Panics s1
              | Some t \<Rightarrow>
                  Returns ()
                    (s1\<lparr>ctrl := C\<lparr>Tx := Some (t\<lparr>Signature := Signature t @ [signature]\<rparr>)\<rparr>\<rparr>))))"

definition TransactionHash :: "env \<Rightarrow> Controller \<Rightarrow> string \<times> error option" where
  "TransactionHash E C =
     (case GetRawData E C of
        (rawData, Some err) \<Rightarrow> ('''', Some err)
      | (rawData, None) \<Rightarrow> (common_ToHex E (sha256_Sum E rawData), None))"

text \<open>
  The polling loop of \<open>TxConfirmation\<close>. \<open>start\<close> is a Go \<open>int\<close>. It starts at
  \<open>int(C.Behavior.ConfirmationWaitTime)\<close>, which is at least \<open>-2^31\<close>, and is
  decremented only while it is not negative, so it never wraps on either platform: the
  loop counts on \<open>int\<close>.
\<close>

function poll :: "env \<Rightarrow> string \<Rightarrow> int \<Rightarrow> state \<Rightarrow> unit outcome" where
  "poll E txHash start s =
     (let C = ctrl s;
          s1 = call (ClientGetTransactionInfoByID txHash) s in
      case Client_GetTransactionInfoByID E (trace s) txHash of
        (None, None) \<Rightarrow> Panics s1
      | (Some txi, None) \<Rightarrow>
          Returns ()
            (s1\<lparr>ctrl :=
                 (if Info_Result txi \<noteq> 0
                  then C\<lparr>resultError := Some (fmt_Errorf (ResMessage txi))\<rparr>
                  else C)\<lparr>Receipt := Some txi\<rparr>\<rparr>)
      | (txi, Some err) \<Rightarrow>
          if start < 0
          then Returns ()
                 (s1\<lparr>ctrl := C\<lparr>ExecutionError :=
                    Some (fmt_Errorf (''could not confirm transaction after ''
                            @ fmt_d (unat (ConfirmationWaitTime (Behavior C)))
                            @ '' seconds''))\<rparr>\<rparr>)
          else poll E txHash (start - 1) (call Sleep s1))"
  by pat_completeness auto
termination
  by (relation "measure (\<lambda>(E, txHash, start, s). nat (start + 1))") auto

declare poll.simps [simp del]

definition TxConfirmation :: "env \<Rightarrow> state \<Rightarrow> unit outcome" where
  "TxConfirmation E s =
     (let C = ctrl s in
      if ExecutionError C \<noteq> None \<or> DryRun (Behavior C) then Returns () s
      else if ConfirmationWaitTime (Behavior C) > 0 then
        (case TransactionHash E C of
           (txHash, Some err) \<Rightarrow>
             Returns () (s\<lparr>ctrl := C\<lparr>ExecutionError := Some (fmt_Errorf ''could not get Tx hash'')\<rparr>\<rparr>)
         | (txHash, None) \<Rightarrow>
             poll E txHash (int_of_uint32 (arch E) (ConfirmationWaitTime (Behavior C))) s)
      else
        Returns ()
          (s\<lparr>ctrl := C\<lparr>Receipt :=
             Some (zero_TransactionInfo\<lparr>Info_Receipt := Some zero_ResourceReceipt\<rparr>)\<rparr>\<rparr>))"

definition GetResultError :: "Controller \<Rightarrow> error option" where
  "GetResultError C = resultError C"

definition SendSignedTx :: "env \<Rightarrow> state \<Rightarrow> unit outcome" where
  "SendSignedTx E s =
     (let C = ctrl s in
      if ExecutionError C \<noteq> None \<or> DryRun (Behavior C) then Returns () s
      else
        (let s1 = call (ClientBroadcast (Tx C)) s in
         case Client_Broadcast E (trace s) (Tx C) of
           (result, Some err) \<Rightarrow> Returns () (s1\<lparr>ctrl := C\<lparr>ExecutionError := Some err\<rparr>\<rparr>)
         | (None, None) \<Rightarrow> Panics s1
         | (Some result, None) \<Rightarrow>
             Returns ()
               (s1\<lparr>ctrl :=
                    (if Code result \<noteq> 0
                     then C\<lparr>ExecutionError :=
                            Some (fmt_Errorf (''bad transaction: '' @ Message result))\<rparr>
                     else C)\<lparr>Result := Some result\<rparr>\<rparr>)))"

definition ExecuteTransaction :: "env \<Rightarrow> state \<Rightarrow> (error option) outcome" where
  "ExecuteTransaction E s =
     and_then
       (case SigningImpl (Behavior (ctrl s)) of
          Software \<Rightarrow> SignTxForSending E s
        | Ledger \<Rightarrow> HardwareSignTxForSending E s
        | OtherImpl k \<Rightarrow> Returns () s)
       (\<lambda>s1. and_then (SendSignedTx E s1)
          (\<lambda>s2. and_then (TxConfirmation E s2)
             (\<lambda>s3. Returns (ExecutionError (ctrl s3)) s3)))"

subsection \<open>Vocabulary for the theorems\<close>

text \<open>
  The signing step of \<open>ExecuteTransaction\<close>, the \<open>switch\<close> on the signer, under a
  name of its own.
\<close>

definition signing :: "env \<Rightarrow> state \<Rightarrow> unit outcome" where
  "signing E s =
     (case SigningImpl (Behavior (ctrl s)) of
        Software \<Rightarrow> SignTxForSending E s
      | Ledger \<Rightarrow> HardwareSignTxForSending E s
      | OtherImpl k \<Rightarrow> Returns () s)"

fun is_query :: "event \<Rightarrow> bool" where
  "is_query (ClientGetTransactionInfoByID h) = True"
| "is_query ev = False"

fun is_broadcast :: "event \<Rightarrow> bool" where
  "is_broadcast (ClientBroadcast t) = True"
| "is_broadcast ev = False"

fun is_sign :: "event \<Rightarrow> bool" where
  "is_sign (KsSignTx a t) = True"
| "is_sign (LedgerSignTx d) = True"
| "is_sign ev = False"

text \<open>The state once the receipt of \<open>h\<close> has been asked for.\<close>

definition asked :: "string \<Rightarrow> state \<Rightarrow> state" where
  "asked h s = call (ClientGetTransactionInfoByID h) s"

text \<open>The calls a method has added to the trace of the state it started from.\<close>

definition new_events :: "state \<Rightarrow> 'r outcome \<Rightarrow> event list" where
  "new_events s out = drop (length (trace s)) (trace (final out))"

text \<open>\<open>n\<close> rounds of the polling loop that found nothing: a query, then a second of sleep.\<close>

definition waits :: "string \<Rightarrow> nat \<Rightarrow> event list" where
  "waits h n = concat (replicate n [ClientGetTransactionInfoByID h, Sleep])"

subsection \<open>A concrete network, for the examples\<close>

text \<open>
  A key store and a Ledger that sign, a network that accepts every transaction and never
  has a receipt, an encoder that returns the payload's bytes, stand-ins for the digest
  and the hexadecimal printer, and a 64-bit platform.
\<close>

definition demo_tx :: Transaction where
  "demo_tx = \<lparr>RawData = Some (TransactionRaw ''transfer''), Signature = []\<rparr>"

definition demo_env :: env where
  "demo_env =
     \<lparr>Ks_SignTx = (\<lambda>tr acct tx.
         (map_option (\<lambda>t. t\<lparr>Signature := Signature t @ [''ks-sig'']\<rparr>) tx, None)),
      ledger_SignTx = (\<lambda>tr data. (''hw-sig'', None)),
      Client_Broadcast = (\<lambda>tr tx. (Some \<lparr>Code = 0, Message = []\<rparr>, None)),
      Client_GetTransactionInfoByID = (\<lambda>tr h. (None, Some (MkError ''not found''))),
      proto_Marshal = (\<lambda>raw. case raw of None \<Rightarrow> ([], None)
                                | Some (TransactionRaw b) \<Rightarrow> (b, None)),
      sha256_Sum = (\<lambda>b. rev b),
      common_ToHex = (\<lambda>b. ''0x'' @ b),
      arch = Arch64\<rparr>"

definition demo_state :: "bool \<Rightarrow> SignerImpl \<Rightarrow> 32 word \<Rightarrow> state" where
  "demo_state dry impl wait =
     \<lparr>ctrl = (NewController (Some (AccountAt ''TXYZ'')) (Some demo_tx) [])
               \<lparr>Behavior := \<lparr>DryRun = dry, SigningImpl = impl, ConfirmationWaitTime = wait\<rparr>\<rparr>,
      trace = []\<rparr>"

text \<open>The same network with an encoder that fails.\<close>

definition failing_marshal_env :: env where
  "failing_marshal_env =
     demo_env\<lparr>proto_Marshal := (\<lambda>raw. ([], Some (MkError ''proto: cannot encode'')))\<rparr>"

text \<open>
  What a method that returned has returned; nothing for a panic.
\<close>

fun returned :: "'r outcome \<Rightarrow> 'r option" where
  "returned (Returns r s) = Some r"
| "returned (Panics s) = None"

text \<open>
  The fatal error of the polling loop, for a wait of \<open>w\<close> seconds.
\<close>

definition timeout_error :: "32 word \<Rightarrow> error" where
  "timeout_error w =
     MkError (''could not confirm transaction after '' @ fmt_d (unat w) @ '' seconds'')"

text \<open>
  Three more networks: one that rejects every broadcast, one whose key store is locked,
  and one that has the receipt of a failed execution from the second query on.
\<close>

definition rejecting_env :: env where
  "rejecting_env =
     demo_env\<lparr>Client_Broadcast :=
       (\<lambda>tr tx. (Some \<lparr>Code = 1, Message = ''SIGERROR''\<rparr>, None))\<rparr>"

definition locked_env :: env where
  "locked_env =
     demo_env\<lparr>Ks_SignTx := (\<lambda>tr acct tx. (None, Some (MkError ''could not decrypt key'')))\<rparr>"

definition failed_receipt :: TransactionInfo where
  "failed_receipt =
     \<lparr>Info_Result = 1, ResMessage = ''REVERT opcode executed'',
      Info_Receipt = Some zero_ResourceReceipt\<rparr>"

definition late_receipt_env :: env where
  "late_receipt_env =
     demo_env\<lparr>Client_GetTransactionInfoByID :=
       (\<lambda>tr h. if length (filter is_query tr) < 1
               then (None, Some (MkError ''not found''))
               else (Some failed_receipt, None))\<rparr>"

section \<open>Properties of the stages\<close>

subsection \<open>The pipeline and its short circuit\<close>

lemma ExecuteTransaction_signing:
  "ExecuteTransaction E s =
     and_then (signing E s)
       (\<lambda>s1. and_then (SendSignedTx E s1)
          (\<lambda>s2. and_then (TxConfirmation E s2)
             (\<lambda>s3. Returns (ExecutionError (ctrl s3)) s3)))"
  by (simp add: ExecuteTransaction_def signing_def)

lemma exec_cases:
  obtains
    (sign_panic) s1 where "signing E s = Panics s1" "ExecuteTransaction E s = Panics s1"
  | (send_panic) s1 s2 where "signing E s = Returns () s1" "SendSignedTx E s1 = Panics s2"
      "ExecuteTransaction E s = Panics s2"
  | (confirm_panic) s1 s2 s3 where "signing E s = Returns () s1"
      "SendSignedTx E s1 = Returns () s2" "TxConfirmation E s2 = Panics s3"
      "ExecuteTransaction E s = Panics s3"
  | (returns) s1 s2 s3 where "signing E s = Returns () s1"
      "SendSignedTx E s1 = Returns () s2" "TxConfirmation E s2 = Returns () s3"
      "ExecuteTransaction E s = Returns (ExecutionError (ctrl s3)) s3"
proof (cases "signing E s")
  case (Panics s1)
  then show thesis using sign_panic by (simp add: ExecuteTransaction_signing and_then_def)
next
  case sign: (Returns u1 s1)
  show thesis
  proof (cases "SendSignedTx E s1")
    case (Panics s2)
    then show thesis using sign send_panic
      by (simp add: ExecuteTransaction_signing and_then_def)
  next
    case send: (Returns u2 s2)
    show thesis
    proof (cases "TxConfirmation E s2")
      case (Panics s3)
      then show thesis using sign send confirm_panic
        by (simp add: ExecuteTransaction_signing and_then_def)
    next
      case (Returns u3 s3)
      then show thesis using sign send returns
        by (simp add: ExecuteTransaction_signing and_then_def)
    qed
  qed
qed

text \<open>
  A stage entered with a fatal error already recorded returns at once; broadcast and
  confirmation do so in a dry run too.
\<close>

lemma SignTxForSending_noop:
  "ExecutionError (ctrl s) \<noteq> None \<Longrightarrow> SignTxForSending E s = Returns () s"
  by (simp add: SignTxForSending_def)

lemma HardwareSignTxForSending_noop:
  "ExecutionError (ctrl s) \<noteq> None \<Longrightarrow> HardwareSignTxForSending E s = Returns () s"
  by (simp add: HardwareSignTxForSending_def)

lemma SendSignedTx_noop:
  "ExecutionError (ctrl s) \<noteq> None \<or> DryRun (Behavior (ctrl s)) \<Longrightarrow> SendSignedTx E s = Returns () s"
  by (auto simp add: SendSignedTx_def)

lemma TxConfirmation_noop:
  "ExecutionError (ctrl s) \<noteq> None \<or> DryRun (Behavior (ctrl s)) \<Longrightarrow> TxConfirmation E s = Returns () s"
  by (auto simp add: TxConfirmation_def)

lemma signing_noop:
  "ExecutionError (ctrl s) \<noteq> None \<Longrightarrow> signing E s = Returns () s"
  by (simp add: signing_def SignTxForSending_noop HardwareSignTxForSending_noop split: SignerImpl.splits)

subsection \<open>Signing\<close>

text \<open>
  Signing writes only the transaction and the fatal error, and calls only signers.
\<close>

lemma SignTxForSending_frame:
  "Behavior (ctrl (final (SignTxForSending E s))) = Behavior (ctrl s) \<and>
   Result (ctrl (final (SignTxForSending E s))) = Result (ctrl s) \<and>
   Receipt (ctrl (final (SignTxForSending E s))) = Receipt (ctrl s) \<and>
   resultError (ctrl (final (SignTxForSending E s))) = resultError (ctrl s)"
  by (simp add: SignTxForSending_def Let_def call_def split: option.splits prod.splits)

lemma HardwareSignTxForSending_frame:
  "Behavior (ctrl (final (HardwareSignTxForSending E s))) = Behavior (ctrl s) \<and>
   Result (ctrl (final (HardwareSignTxForSending E s))) = Result (ctrl s) \<and>
   Receipt (ctrl (final (HardwareSignTxForSending E s))) = Receipt (ctrl s) \<and>
   resultError (ctrl (final (HardwareSignTxForSending E s))) = resultError (ctrl s)"
  by (simp add: HardwareSignTxForSending_def Let_def call_def split: option.splits prod.splits)

lemma signing_frame:
  "Behavior (ctrl (final (signing E s))) = Behavior (ctrl s) \<and>
   Result (ctrl (final (signing E s))) = Result (ctrl s) \<and>
   Receipt (ctrl (final (signing E s))) = Receipt (ctrl s) \<and>
   resultError (ctrl (final (signing E s))) = resultError (ctrl s)"
  by (simp add: signing_def SignTxForSending_frame HardwareSignTxForSending_frame split: SignerImpl.splits)

lemma signing_trace:
  "\<exists>evs. trace (final (signing E s)) = trace s @ evs \<and> (\<forall>ev \<in> set evs. is_sign ev)"
  by (auto simp add: signing_def SignTxForSending_def HardwareSignTxForSending_def Let_def call_def split: SignerImpl.splits option.splits prod.splits)

lemma signing_new_events:
  assumes "signing E s = Returns u s1"
  obtains evs where "trace s1 = trace s @ evs" and "\<forall>ev \<in> set evs. is_sign ev"
  using signing_trace [of E s] assms by auto

lemma sign_event_kinds:
  "is_sign ev \<Longrightarrow> \<not> is_broadcast ev \<and> \<not> is_query ev"
  by (cases ev) auto

lemma polling_event_kinds:
  "is_query ev \<or> ev = Sleep \<Longrightarrow> \<not> is_sign ev \<and> \<not> is_broadcast ev"
  by (cases ev) auto

subsection \<open>Broadcast\<close>

lemma SendSignedTx_trace:
  "trace (final (SendSignedTx E s)) =
     trace s @ (if ExecutionError (ctrl s) \<noteq> None \<or> DryRun (Behavior (ctrl s)) then []
                else [ClientBroadcast (Tx (ctrl s))])"
  by (simp add: SendSignedTx_def Let_def call_def split: option.splits prod.splits)

lemma SendSignedTx_frame:
  "Behavior (ctrl (final (SendSignedTx E s))) = Behavior (ctrl s) \<and>
   Tx (ctrl (final (SendSignedTx E s))) = Tx (ctrl s) \<and>
   Receipt (ctrl (final (SendSignedTx E s))) = Receipt (ctrl s) \<and>
   resultError (ctrl (final (SendSignedTx E s))) = resultError (ctrl s)"
  by (simp add: SendSignedTx_def Let_def call_def split: option.splits prod.splits)

text \<open>
  The acknowledgment field after the broadcast step: the acknowledgment, when the call
  returned one without a transport error, and the field as it was otherwise.
\<close>

lemma SendSignedTx_Result_exact:
  "Result (ctrl (final (SendSignedTx E s))) =
     (if ExecutionError (ctrl s) = None \<and> \<not> DryRun (Behavior (ctrl s)) \<and>
         snd (Client_Broadcast E (trace s) (Tx (ctrl s))) = None \<and>
         fst (Client_Broadcast E (trace s) (Tx (ctrl s))) \<noteq> None
      then fst (Client_Broadcast E (trace s) (Tx (ctrl s)))
      else Result (ctrl s))"
  by (simp add: SendSignedTx_def Let_def call_def split: option.splits prod.splits)

lemma SendSignedTx_rejected:
  assumes "ExecutionError (ctrl s) = None" and "\<not> DryRun (Behavior (ctrl s))"
    and "Client_Broadcast E (trace s) (Tx (ctrl s)) = (Some ack, None)" and "Code ack \<noteq> 0"
  shows "SendSignedTx E s =
     Returns ()
       \<lparr>ctrl = (ctrl s)\<lparr>ExecutionError := Some (MkError (''bad transaction: '' @ Message ack)),
                         Result := Some ack\<rparr>,
        trace = trace s @ [ClientBroadcast (Tx (ctrl s))]\<rparr>"
  using assms by (simp add: SendSignedTx_def Let_def call_def fmt_Errorf_def)

lemma SendSignedTx_accepted:
  assumes "ExecutionError (ctrl s) = None" and "\<not> DryRun (Behavior (ctrl s))"
    and "Client_Broadcast E (trace s) (Tx (ctrl s)) = (Some ack, None)" and "Code ack = 0"
  shows "SendSignedTx E s =
     Returns ()
       \<lparr>ctrl = (ctrl s)\<lparr>Result := Some ack\<rparr>,
        trace = trace s @ [ClientBroadcast (Tx (ctrl s))]\<rparr>"
  using assms by (simp add: SendSignedTx_def Let_def call_def)

subsection \<open>The polling loop\<close>

text \<open>
  One round of the loop, by the answer of the network: a receipt, a nil receipt without
  an error, or an error with the budget negative or not.
\<close>

lemma poll_found:
  "Client_GetTransactionInfoByID E (trace s) h = (Some txi, None) \<Longrightarrow>
   poll E h start s =
     Returns ()
       ((asked h s)\<lparr>ctrl :=
          (if Info_Result txi \<noteq> 0
           then (ctrl s)\<lparr>resultError := Some (fmt_Errorf (ResMessage txi))\<rparr>
           else ctrl s)\<lparr>Receipt := Some txi\<rparr>\<rparr>)"
  by (simp add: poll.simps [of E h start s] Let_def asked_def)

lemma poll_nil:
  "Client_GetTransactionInfoByID E (trace s) h = (None, None) \<Longrightarrow>
   poll E h start s = Panics (asked h s)"
  by (simp add: poll.simps [of E h start s] Let_def asked_def)

lemma poll_timeout:
  "snd (Client_GetTransactionInfoByID E (trace s) h) \<noteq> None \<Longrightarrow> start < 0 \<Longrightarrow>
   poll E h start s =
     Returns ()
       ((asked h s)\<lparr>ctrl := (ctrl s)\<lparr>ExecutionError :=
          Some (fmt_Errorf (''could not confirm transaction after ''
                  @ fmt_d (unat (ConfirmationWaitTime (Behavior (ctrl s))))
                  @ '' seconds''))\<rparr>\<rparr>)"
  by (cases "Client_GetTransactionInfoByID E (trace s) h")
     (auto simp add: poll.simps [of E h start s] Let_def asked_def split: option.splits)

lemma poll_retry:
  "snd (Client_GetTransactionInfoByID E (trace s) h) \<noteq> None \<Longrightarrow> \<not> start < 0 \<Longrightarrow>
   poll E h start s = poll E h (start - 1) (call Sleep (asked h s))"
  by (cases "Client_GetTransactionInfoByID E (trace s) h")
     (auto simp add: poll.simps [of E h start s] Let_def asked_def split: option.splits)

lemma poll_cases:
  obtains (found) txi where "Client_GetTransactionInfoByID E (trace s) h = (Some txi, None)"
  | (nil) "Client_GetTransactionInfoByID E (trace s) h = (None, None)"
  | (failed) "snd (Client_GetTransactionInfoByID E (trace s) h) \<noteq> None"
proof (cases "Client_GetTransactionInfoByID E (trace s) h")
  case (Pair a b)
  then show thesis using that by (cases a; cases b) auto
qed

text \<open>
  The loop only asks and sleeps. The proofs about it go by induction on the rounds that
  are left, \<open>nat (start + 1)\<close>.
\<close>

lemma poll_trace:
  "\<exists>evs. trace (final (poll E h start s)) = trace s @ evs \<and>
         (\<forall>ev \<in> set evs. ev = ClientGetTransactionInfoByID h \<or> ev = Sleep)"
proof (induction "nat (start + 1)" arbitrary: start s)
  case 0
  then have neg: "start < 0" by simp
  show ?case
  proof (cases rule: poll_cases [of E s h])
    case (found txi)
    then show ?thesis by (simp add: poll_found asked_def call_def)
  next
    case nil
    then show ?thesis by (simp add: poll_nil asked_def call_def)
  next
    case failed
    then show ?thesis using neg by (simp add: poll_timeout asked_def call_def)
  qed
next
  case (Suc k)
  then have pos: "\<not> start < 0" and k: "k = nat ((start - 1) + 1)" by simp_all
  show ?case
  proof (cases rule: poll_cases [of E s h])
    case (found txi)
    then show ?thesis by (simp add: poll_found asked_def call_def)
  next
    case nil
    then show ?thesis by (simp add: poll_nil asked_def call_def)
  next
    case failed
    from Suc.hyps(1) [OF k, of "call Sleep (asked h s)"]
    obtain evs where
      "trace (final (poll E h (start - 1) (call Sleep (asked h s)))) =
         trace (call Sleep (asked h s)) @ evs"
      and "\<forall>ev \<in> set evs. ev = ClientGetTransactionInfoByID h \<or> ev = Sleep"
      by blast
    then have "trace (final (poll E h start s)) =
                 trace s @ (ClientGetTransactionInfoByID h # Sleep # evs) \<and>
               (\<forall>ev \<in> set (ClientGetTransactionInfoByID h # Sleep # evs).
                  ev = ClientGetTransactionInfoByID h \<or> ev = Sleep)"
      using failed pos by (simp add: poll_retry asked_def call_def)
    then show ?thesis by blast
  qed
qed

text \<open>
  The loop writes only the receipt and the two error fields.
\<close>

lemma poll_frame:
  "Result (ctrl (final (poll E h start s))) = Result (ctrl s) \<and>
   Tx (ctrl (final (poll E h start s))) = Tx (ctrl s) \<and>
   Behavior (ctrl (final (poll E h start s))) = Behavior (ctrl s)"
proof (induction "nat (start + 1)" arbitrary: start s)
  case 0
  then have neg: "start < 0" by simp
  show ?case
    by (cases rule: poll_cases [of E s h])
       (simp_all add: poll_found poll_nil poll_timeout neg asked_def call_def)
next
  case (Suc k)
  then have pos: "\<not> start < 0" and k: "k = nat ((start - 1) + 1)" by simp_all
  show ?case
  proof (cases rule: poll_cases [of E s h])
    case failed
    then show ?thesis
      using Suc.hyps(1) [OF k, of "call Sleep (asked h s)"] pos
      by (simp add: poll_retry asked_def call_def)
  qed (simp_all add: poll_found poll_nil asked_def call_def)
qed

text \<open>
  A fatal error after the loop means that the loop stored no receipt.
\<close>

lemma poll_error_no_receipt:
  "ExecutionError (ctrl s) = None \<Longrightarrow>
   ExecutionError (ctrl (final (poll E h start s))) \<noteq> None \<Longrightarrow>
   Receipt (ctrl (final (poll E h start s))) = Receipt (ctrl s)"
proof (induction "nat (start + 1)" arbitrary: start s)
  case 0
  then have neg: "start < 0" by simp
  show ?case using "0.prems"
    by (cases rule: poll_cases [of E s h])
       (simp_all add: poll_found poll_nil poll_timeout neg asked_def call_def split: if_splits)
next
  case (Suc k)
  then have pos: "\<not> start < 0" and k: "k = nat ((start - 1) + 1)" by simp_all
  show ?case
  proof (cases rule: poll_cases [of E s h])
    case failed
    then show ?thesis
      using Suc.hyps(1) [OF k, of "call Sleep (asked h s)"] Suc.prems pos
      by (simp add: poll_retry asked_def call_def)
  next
    case (found txi)
    then show ?thesis using Suc.prems
      by (simp add: poll_found asked_def call_def split: if_splits)
  next
    case nil
    then show ?thesis using Suc.prems by (simp add: poll_nil asked_def call_def)
  qed
qed

lemma waits_Suc:
  "waits h (Suc n) = ClientGetTransactionInfoByID h # Sleep # waits h n"
  by (simp add: waits_def)

lemma waits_0: "waits h 0 = []"
  by (simp add: waits_def)

text \<open>
  A receipt found at the query after \<open>n\<close> failed ones, within the budget. The first
  query is made whatever the budget is.
\<close>

lemma poll_found_after:
  assumes "\<forall>j<n. snd (Client_GetTransactionInfoByID E (trace s @ waits h j) h) \<noteq> None"
    and "Client_GetTransactionInfoByID E (trace s @ waits h n) h = (Some txi, None)"
    and "n = 0 \<or> int n \<le> start + 1"
  shows "poll E h start s =
     Returns ()
       \<lparr>ctrl = (if Info_Result txi \<noteq> 0
                then (ctrl s)\<lparr>resultError := Some (MkError (ResMessage txi))\<rparr>
                else ctrl s)\<lparr>Receipt := Some txi\<rparr>,
        trace = trace s @ waits h n @ [ClientGetTransactionInfoByID h]\<rparr>"
  using assms
proof (induction n arbitrary: s start)
  case 0
  then show ?case
    by (simp add: poll_found waits_0 asked_def call_def fmt_Errorf_def)
next
  case (Suc n)
  let ?s' = "call Sleep (asked h s)"
  have tr: "trace ?s' = trace s @ [ClientGetTransactionInfoByID h, Sleep]"
    and c: "ctrl ?s' = ctrl s"
    by (simp_all add: asked_def call_def)
  have failed: "snd (Client_GetTransactionInfoByID E (trace s) h) \<noteq> None"
    using Suc.prems(1) [rule_format, of 0] by (simp add: waits_0)
  have le: "int (Suc n) \<le> start + 1" using Suc.prems(3) by simp
  have pos: "\<not> start < 0" using le by simp
  have step: "poll E h start s = poll E h (start - 1) ?s'"
    using failed pos by (rule poll_retry)
  have p1: "\<forall>j<n. snd (Client_GetTransactionInfoByID E (trace ?s' @ waits h j) h) \<noteq> None"
    using Suc.prems(1) by (auto simp add: tr waits_Suc)
  have p2: "Client_GetTransactionInfoByID E (trace ?s' @ waits h n) h = (Some txi, None)"
    using Suc.prems(2) by (simp add: tr waits_Suc)
  have p3: "n = 0 \<or> int n \<le> (start - 1) + 1" using le by simp
  show ?case
    unfolding step Suc.IH [OF p1 p2 p3]
    by (simp add: tr c waits_Suc)
qed

text \<open>
  A network that never has the receipt: the loop asks \<open>start + 2\<close> times, the last
  time with the budget at \<open>-1\<close>, and then gives up.
\<close>

lemma poll_never:
  assumes "\<forall>tr. snd (Client_GetTransactionInfoByID E tr h) \<noteq> None"
    and "- 1 \<le> start"
  shows "poll E h start s =
     Returns ()
       \<lparr>ctrl = (ctrl s)\<lparr>ExecutionError :=
                 Some (timeout_error (ConfirmationWaitTime (Behavior (ctrl s))))\<rparr>,
        trace = trace s @ waits h (nat (start + 1)) @ [ClientGetTransactionInfoByID h]\<rparr>"
  using assms(2)
proof (induction "nat (start + 1)" arbitrary: start s)
  case 0
  then have neg: "start < 0" by simp
  have failed: "snd (Client_GetTransactionInfoByID E (trace s) h) \<noteq> None"
    using assms(1) by blast
  show ?case
    using 0
    by (simp add: poll_timeout [OF failed neg] waits_0 asked_def call_def fmt_Errorf_def
          timeout_error_def)
next
  case (Suc k)
  let ?s' = "call Sleep (asked h s)"
  have tr: "trace ?s' = trace s @ [ClientGetTransactionInfoByID h, Sleep]"
    and c: "ctrl ?s' = ctrl s"
    by (simp_all add: asked_def call_def)
  have pos: "\<not> start < 0" and k: "k = nat ((start - 1) + 1)" and lo: "- 1 \<le> start - 1"
    using Suc.hyps(2) by simp_all
  have failed: "snd (Client_GetTransactionInfoByID E (trace s) h) \<noteq> None"
    using assms(1) by blast
  have step: "poll E h start s = poll E h (start - 1) ?s'"
    using failed pos by (rule poll_retry)
  have w: "waits h (nat (start + 1)) = ClientGetTransactionInfoByID h # Sleep # waits h k"
    using Suc.hyps(2) [symmetric] by (simp add: waits_Suc)
  show ?case
    unfolding step Suc.hyps(1) [OF k lo]
    using k by (simp add: tr c w)
qed

subsection \<open>Confirmation\<close>

lemma TransactionHash_Result_update:
  "TransactionHash E (C\<lparr>Result := r\<rparr>) = TransactionHash E C"
  by (simp add: TransactionHash_def GetRawData_def)

lemma TxConfirmation_trace:
  "\<exists>evs. trace (final (TxConfirmation E s)) = trace s @ evs \<and>
         (\<forall>ev \<in> set evs. is_query ev \<or> ev = Sleep)"
proof (cases "ExecutionError (ctrl s) = None \<and> \<not> DryRun (Behavior (ctrl s)) \<and>
              ConfirmationWaitTime (Behavior (ctrl s)) > 0 \<and>
              snd (TransactionHash E (ctrl s)) = None")
  case True
  obtain evs where
    "trace (final (poll E (fst (TransactionHash E (ctrl s)))
                     (int_of_uint32 (arch E) (ConfirmationWaitTime (Behavior (ctrl s)))) s)) =
       trace s @ evs"
    and "\<forall>ev \<in> set evs. ev = ClientGetTransactionInfoByID (fst (TransactionHash E (ctrl s))) \<or> ev = Sleep"
    using poll_trace by blast
  then have "trace (final (TxConfirmation E s)) = trace s @ evs \<and>
             (\<forall>ev \<in> set evs. is_query ev \<or> ev = Sleep)"
    using True by (auto simp add: TxConfirmation_def Let_def split: prod.splits)
  then show ?thesis by blast
next
  case False
  then have "trace (final (TxConfirmation E s)) = trace s @ []"
    by (auto simp add: TxConfirmation_def Let_def split: prod.splits option.splits)
  then show ?thesis by (metis empty_iff list.set(1))
qed

lemma TxConfirmation_Result:
  "Result (ctrl (final (TxConfirmation E s))) = Result (ctrl s)"
  by (simp add: TxConfirmation_def Let_def poll_frame split: prod.splits option.splits)

lemma TxConfirmation_error_no_receipt:
  assumes "ExecutionError (ctrl (final (TxConfirmation E s))) \<noteq> None"
  shows "Receipt (ctrl (final (TxConfirmation E s))) = Receipt (ctrl s)"
proof (cases "ExecutionError (ctrl s) \<noteq> None \<or> DryRun (Behavior (ctrl s))")
  case True
  then show ?thesis by (simp add: TxConfirmation_noop)
next
  case False
  then show ?thesis using assms
    by (auto simp add: TxConfirmation_def Let_def poll_error_no_receipt
             split: prod.splits option.splits if_splits)
qed

text \<open>
  The acknowledgment field after the pipeline is the one the broadcast step left, or the
  one the pipeline started with if signing panicked.
\<close>

lemma ExecuteTransaction_Result:
  "Result (ctrl (final (ExecuteTransaction E s))) =
     (case signing E s of
        Panics p \<Rightarrow> Result (ctrl s)
      | Returns u s1 \<Rightarrow> Result (ctrl (final (SendSignedTx E s1))))"
proof (cases rule: exec_cases [of E s])
  case (sign_panic s1)
  then show ?thesis using signing_frame [of E s] by simp
next
  case (send_panic s1 s2)
  then show ?thesis by simp
next
  case (confirm_panic s1 s2 s3)
  then show ?thesis using TxConfirmation_Result [of E s2] by simp
next
  case (returns s1 s2 s3)
  then show ?thesis using TxConfirmation_Result [of E s2] by simp
qed

section \<open>The claims\<close>

text \<open>
  The equations that unfold the example states and the example network.
\<close>

lemmas demo_defs = demo_state_def demo_env_def demo_tx_def NewController_def

text \<open>
  The platform matters for a wait of \<open>2^31\<close> seconds or more: on 32 bits the budget
  starts negative, and the loop gives up after one failed query.
\<close>

lemma TxConfirmation_on_32_bits:
  "TxConfirmation (demo_env\<lparr>arch := Arch32\<rparr>) (demo_state False Software 2147483648) =
     Returns ()
       \<lparr>ctrl = (ctrl (demo_state False Software 2147483648))
                 \<lparr>ExecutionError :=
                    Some (MkError ''could not confirm transaction after 2147483648 seconds'')\<rparr>,
        trace = [ClientGetTransactionInfoByID ''0xrefsnart'']\<rparr>"
  by (simp add: TxConfirmation_def TransactionHash_def GetRawData_def Tx_GetRawData_def
        Let_def call_def demo_defs poll.simps int_of_uint32_def fmt_Errorf_def
        fmt_d.simps digit_char_def)

text \<open>
  Claim C1, as the code has it. When \<open>ExecuteTransaction\<close> ends with a fatal error,
  the receipt is the one the controller started with (none on a fresh controller). The
  acknowledgment field is settled by what happened up to the broadcast. If signing
  panicked or recorded a fatal error, or in a dry run, or if the broadcast call returned
  a transport error or a nil acknowledgment, \<open>Result\<close> is the one the controller started
  with. If signing returned without a fatal error, there is no dry run and the broadcast
  call returned an acknowledgment without a transport error, \<open>Result\<close> holds that
  acknowledgment, whatever its code: when the code is not zero the broadcast step
  records the fatal error and stores the acknowledgment all the same, and when it is zero
  the acknowledgment stays there through a confirmation that fails.
\<close>

theorem C1_fatal_error_fields:
  assumes "ExecutionError (ctrl (final (ExecuteTransaction E s))) \<noteq> None"
  shows "Receipt (ctrl (final (ExecuteTransaction E s))) = Receipt (ctrl s) \<and>
         (returned (signing E s) = None \<or>
          ExecutionError (ctrl (final (signing E s))) \<noteq> None \<or>
          DryRun (Behavior (ctrl s)) \<or>
          snd (Client_Broadcast E (trace (final (signing E s)))
                 (Tx (ctrl (final (signing E s))))) \<noteq> None \<or>
          fst (Client_Broadcast E (trace (final (signing E s)))
                 (Tx (ctrl (final (signing E s))))) = None \<longrightarrow>
            Result (ctrl (final (ExecuteTransaction E s))) = Result (ctrl s)) \<and>
         (signing E s = Returns () s1 \<and> ExecutionError (ctrl s1) = None \<and>
          \<not> DryRun (Behavior (ctrl s1)) \<and>
          Client_Broadcast E (trace s1) (Tx (ctrl s1)) = (Some ack, None) \<longrightarrow>
            Result (ctrl (final (ExecuteTransaction E s))) = Some ack \<and>
            (Code ack \<noteq> 0 \<longrightarrow>
               ExecutionError (ctrl (final (ExecuteTransaction E s))) =
                 Some (MkError (''bad transaction: '' @ Message ack))))"
proof -
  let ?s1 = "final (signing E s)"
  let ?s2 = "final (SendSignedTx E ?s1)"
  let ?s3 = "final (TxConfirmation E ?s2)"
  let ?f = "final (ExecuteTransaction E s)"
  let ?b = "Client_Broadcast E (trace ?s1) (Tx (ctrl ?s1))"
  have r1: "Receipt (ctrl ?s1) = Receipt (ctrl s)"
    by (simp add: signing_frame)
  have r2: "Receipt (ctrl ?s2) = Receipt (ctrl s)"
    by (simp add: SendSignedTx_frame r1)
  have receipt: "Receipt (ctrl ?f) = Receipt (ctrl s)"
  proof (cases rule: exec_cases [of E s])
    case (sign_panic s1)
    then show ?thesis using r1 by simp
  next
    case (send_panic s1 s2)
    then show ?thesis using r2 by simp
  next
    case (confirm_panic s1 s2 s3)
    then have f: "?f = ?s3" by simp
    then have "Receipt (ctrl ?s3) = Receipt (ctrl ?s2)"
      using assms TxConfirmation_error_no_receipt [of E ?s2] by simp
    then show ?thesis using f r2 by simp
  next
    case (returns s1 s2 s3)
    then have f: "?f = ?s3" by simp
    then have "Receipt (ctrl ?s3) = Receipt (ctrl ?s2)"
      using assms TxConfirmation_error_no_receipt [of E ?s2] by simp
    then show ?thesis using f r2 by simp
  qed
  have kept: "Result (ctrl ?f) = Result (ctrl s)"
    if h: "returned (signing E s) = None \<or> ExecutionError (ctrl ?s1) \<noteq> None \<or>
           DryRun (Behavior (ctrl s)) \<or> snd ?b \<noteq> None \<or> fst ?b = None"
  proof (cases "signing E s")
    case (Panics p)
    then show ?thesis using signing_frame [of E s] by (simp add: ExecuteTransaction_Result)
  next
    case (Returns u p)
    then have p: "?s1 = p" by simp
    have "DryRun (Behavior (ctrl p)) = DryRun (Behavior (ctrl s))"
      using signing_frame [of E s] p by simp
    then have "Result (ctrl (final (SendSignedTx E p))) = Result (ctrl p)"
      using h Returns p by (auto simp add: SendSignedTx_Result_exact)
    moreover have "Result (ctrl p) = Result (ctrl s)"
      using signing_frame [of E s] p by simp
    ultimately show ?thesis using Returns by (simp add: ExecuteTransaction_Result)
  qed
  have stored: "Result (ctrl ?f) = Some ack \<and>
          (Code ack \<noteq> 0 \<longrightarrow>
             ExecutionError (ctrl ?f) = Some (MkError (''bad transaction: '' @ Message ack)))"
    if h: "signing E s = Returns () s1" "ExecutionError (ctrl s1) = None"
      "\<not> DryRun (Behavior (ctrl s1))"
      "Client_Broadcast E (trace s1) (Tx (ctrl s1)) = (Some ack, None)"
  proof -
    have "Result (ctrl ?f) = Some ack"
      using h by (simp add: ExecuteTransaction_Result SendSignedTx_Result_exact)
    moreover have "ExecutionError (ctrl ?f) =
                     Some (MkError (''bad transaction: '' @ Message ack))"
      if "Code ack \<noteq> 0"
      using h(1) SendSignedTx_rejected [OF h(2-4) that]
      by (simp add: ExecuteTransaction_signing and_then_def TxConfirmation_noop)
    ultimately show ?thesis by blast
  qed
  show ?thesis using receipt kept stored by blast
qed

text \<open>
  Three instances. A network that rejects the broadcast with code 1: the fatal error is
  set, no receipt is stored, and the rejected acknowledgment is in \<open>Result\<close>. A network
  that accepts the broadcast and never has the receipt, with a wait of 2 seconds: the
  fatal error is the timeout, no receipt is stored, and the accepted acknowledgment is
  still in \<open>Result\<close>. A locked key store: the fatal error is set by signing, and both
  fields stay nil.
\<close>

theorem C1_fatal_error_fields_witness:
  "ExecutionError (ctrl (final (ExecuteTransaction rejecting_env (demo_state False Software 0))))
     \<noteq> None \<and>
   Receipt (ctrl (final (ExecuteTransaction rejecting_env (demo_state False Software 0)))) =
     None \<and>
   Result (ctrl (final (ExecuteTransaction rejecting_env (demo_state False Software 0)))) =
     Some \<lparr>Code = 1, Message = ''SIGERROR''\<rparr> \<and>
   ExecutionError (ctrl (final (ExecuteTransaction demo_env (demo_state False Software 2))))
     \<noteq> None \<and>
   Receipt (ctrl (final (ExecuteTransaction demo_env (demo_state False Software 2)))) =
     None \<and>
   Result (ctrl (final (ExecuteTransaction demo_env (demo_state False Software 2)))) =
     Some \<lparr>Code = 0, Message = []\<rparr> \<and>
   ExecutionError (ctrl (final (ExecuteTransaction locked_env (demo_state False Software 2))))
     \<noteq> None \<and>
   Receipt (ctrl (final (ExecuteTransaction locked_env (demo_state False Software 2)))) =
     None \<and>
   Result (ctrl (final (ExecuteTransaction locked_env (demo_state False Software 2)))) =
     None"
proof -
  let ?ack = "\<lparr>Code = 1, Message = ''SIGERROR''\<rparr>"
  let ?ok = "\<lparr>Code = 0, Message = []\<rparr>"
  let ?a1 = "\<lparr>ctrl = (ctrl (demo_state False Software 0))
                 \<lparr>Tx := Some (demo_tx\<lparr>Signature := [''ks-sig'']\<rparr>)\<rparr>,
        trace = [KsSignTx (AccountAt ''TXYZ'') (Some demo_tx)]\<rparr>"
  let ?b1 = "\<lparr>ctrl = (ctrl (demo_state False Software 2))
                 \<lparr>Tx := Some (demo_tx\<lparr>Signature := [''ks-sig'']\<rparr>)\<rparr>,
        trace = [KsSignTx (AccountAt ''TXYZ'') (Some demo_tx)]\<rparr>"
  let ?c1 = "\<lparr>ctrl = (ctrl (demo_state False Software 2))
                 \<lparr>ExecutionError := Some (MkError ''could not decrypt key'')\<rparr>,
        trace = [KsSignTx (AccountAt ''TXYZ'') (Some demo_tx)]\<rparr>"
  have a: "ExecutionError (ctrl (final (ExecuteTransaction rejecting_env
             (demo_state False Software 0)))) \<noteq> None"
    by (simp add: ExecuteTransaction_def SignTxForSending_def SendSignedTx_def
          TxConfirmation_def and_then_def Let_def call_def demo_defs rejecting_env_def)
  have a1: "signing rejecting_env (demo_state False Software 0) = Returns () ?a1"
    by (simp add: signing_def SignTxForSending_def Let_def call_def demo_defs rejecting_env_def)
  have a2: "ExecutionError (ctrl ?a1) = None"
    and a3: "\<not> DryRun (Behavior (ctrl ?a1))"
    and a4: "Client_Broadcast rejecting_env (trace ?a1) (Tx (ctrl ?a1)) = (Some ?ack, None)"
    and a5: "Receipt (ctrl (demo_state False Software 0)) = None"
    by (simp_all add: demo_defs rejecting_env_def)
  have b: "ExecutionError (ctrl (final (ExecuteTransaction demo_env
             (demo_state False Software 2)))) \<noteq> None"
    by (simp add: ExecuteTransaction_def SignTxForSending_def SendSignedTx_def
          TxConfirmation_def TransactionHash_def GetRawData_def Tx_GetRawData_def
          and_then_def Let_def call_def demo_defs poll.simps int_of_uint32_def)
  have b1: "signing demo_env (demo_state False Software 2) = Returns () ?b1"
    by (simp add: signing_def SignTxForSending_def Let_def call_def demo_defs)
  have b2: "ExecutionError (ctrl ?b1) = None"
    and b3: "\<not> DryRun (Behavior (ctrl ?b1))"
    and b4: "Client_Broadcast demo_env (trace ?b1) (Tx (ctrl ?b1)) = (Some ?ok, None)"
    and b5: "Receipt (ctrl (demo_state False Software 2)) = None"
    and b6: "Result (ctrl (demo_state False Software 2)) = None"
    by (simp_all add: demo_defs)
  have c1: "signing locked_env (demo_state False Software 2) = Returns () ?c1"
    by (simp add: signing_def SignTxForSending_def Let_def call_def demo_defs locked_env_def)
  have c: "ExecutionError (ctrl (final (ExecuteTransaction locked_env
             (demo_state False Software 2)))) \<noteq> None"
    using c1
    by (simp add: ExecuteTransaction_signing and_then_def SendSignedTx_noop
          TxConfirmation_noop)
  have c2: "ExecutionError (ctrl (final (signing locked_env (demo_state False Software 2))))
              \<noteq> None"
    using c1 by simp
  from C1_fatal_error_fields [OF a, of ?a1 ?ack] a1 a2 a3 a4 a5
  have ra: "Receipt (ctrl (final (ExecuteTransaction rejecting_env
               (demo_state False Software 0)))) = None"
    "Result (ctrl (final (ExecuteTransaction rejecting_env
               (demo_state False Software 0)))) = Some ?ack"
    by simp_all
  from C1_fatal_error_fields [OF b, of ?b1 ?ok] b1 b2 b3 b4 b5
  have rb: "Receipt (ctrl (final (ExecuteTransaction demo_env
               (demo_state False Software 2)))) = None"
    "Result (ctrl (final (ExecuteTransaction demo_env
               (demo_state False Software 2)))) = Some ?ok"
    by simp_all
  from C1_fatal_error_fields [OF c] c2 b5 b6
  have rc: "Receipt (ctrl (final (ExecuteTransaction locked_env
               (demo_state False Software 2)))) = None"
    "Result (ctrl (final (ExecuteTransaction locked_env
               (demo_state False Software 2)))) = None"
    by simp_all
  show ?thesis using a b c ra rb rc by simp
qed

text \<open>
  On that network the fatal error is set by the broadcast step upon the non-zero code,
  and \<open>Result\<close> is not nil.
\<close>

theorem C1_counterexample:
  "ExecutionError (ctrl (final (ExecuteTransaction rejecting_env (demo_state False Software 0)))) =
     Some (MkError ''bad transaction: SIGERROR'') \<and>
   Result (ctrl (final (ExecuteTransaction rejecting_env (demo_state False Software 0)))) =
     Some \<lparr>Code = 1, Message = ''SIGERROR''\<rparr> \<and>
   Result (ctrl (final (ExecuteTransaction rejecting_env (demo_state False Software 0)))) \<noteq> None"
  by (simp add: ExecuteTransaction_def SignTxForSending_def SendSignedTx_def
        TxConfirmation_def and_then_def Let_def call_def demo_defs rejecting_env_def
        fmt_Errorf_def)

text \<open>
  Claim C2. A stage entered with a fatal error recorded does nothing: it returns the
  state unchanged, so the error is not overwritten and no collaborator is called, and
  \<open>ExecuteTransaction\<close> on such a state returns that error. The value
  \<open>ExecuteTransaction\<close> returns is the fatal error of the state it leaves. A fatal error
  set by signing, or present after the broadcast, is returned as it is, with the state
  of that moment; and when all three stages return, the result is the field after the
  last one, nil if no stage has set it.
\<close>

theorem C2_first_fatal_error_wins:
  "(ExecutionError (ctrl s) \<noteq> None \<longrightarrow>
      SignTxForSending E s = Returns () s \<and>
      HardwareSignTxForSending E s = Returns () s \<and>
      SendSignedTx E s = Returns () s \<and>
      TxConfirmation E s = Returns () s \<and>
      ExecuteTransaction E s = Returns (ExecutionError (ctrl s)) s) \<and>
   (ExecuteTransaction E s = Returns r s' \<longrightarrow> r = ExecutionError (ctrl s')) \<and>
   (signing E s = Returns () s1 \<and> ExecutionError (ctrl s1) \<noteq> None \<longrightarrow>
      ExecuteTransaction E s = Returns (ExecutionError (ctrl s1)) s1) \<and>
   (signing E s = Returns () s1 \<and> SendSignedTx E s1 = Returns () s2 \<and>
    ExecutionError (ctrl s2) \<noteq> None \<longrightarrow>
      ExecuteTransaction E s = Returns (ExecutionError (ctrl s2)) s2) \<and>
   (signing E s = Returns () s1 \<and> SendSignedTx E s1 = Returns () s2 \<and>
    TxConfirmation E s2 = Returns () s3 \<longrightarrow>
      ExecuteTransaction E s = Returns (ExecutionError (ctrl s3)) s3)"
proof -
  have a: "SignTxForSending E s = Returns () s \<and>
      HardwareSignTxForSending E s = Returns () s \<and>
      SendSignedTx E s = Returns () s \<and>
      TxConfirmation E s = Returns () s \<and>
      ExecuteTransaction E s = Returns (ExecutionError (ctrl s)) s"
    if "ExecutionError (ctrl s) \<noteq> None"
    using that
    by (simp add: SignTxForSending_noop HardwareSignTxForSending_noop SendSignedTx_noop
          TxConfirmation_noop signing_noop ExecuteTransaction_signing and_then_def)
  have b: "r = ExecutionError (ctrl s')" if "ExecuteTransaction E s = Returns r s'"
    using that by (cases rule: exec_cases [of E s]) simp_all
  have c: "ExecuteTransaction E s = Returns (ExecutionError (ctrl s1)) s1"
    if "signing E s = Returns () s1" "ExecutionError (ctrl s1) \<noteq> None"
    using that
    by (simp add: ExecuteTransaction_signing and_then_def SendSignedTx_noop TxConfirmation_noop)
  have d: "ExecuteTransaction E s = Returns (ExecutionError (ctrl s2)) s2"
    if "signing E s = Returns () s1" "SendSignedTx E s1 = Returns () s2"
      "ExecutionError (ctrl s2) \<noteq> None"
    using that
    by (simp add: ExecuteTransaction_signing and_then_def TxConfirmation_noop)
  have e: "ExecuteTransaction E s = Returns (ExecutionError (ctrl s3)) s3"
    if "signing E s = Returns () s1" "SendSignedTx E s1 = Returns () s2"
      "TxConfirmation E s2 = Returns () s3"
    using that by (simp add: ExecuteTransaction_signing and_then_def)
  show ?thesis using a b c d e by blast
qed

text \<open>
  An instance: with a locked key store the signing step records the error of the key
  store, broadcast and confirmation leave that state alone, and the pipeline returns the
  error. On the network that accepts and with no wait, the pipeline returns nil.
\<close>

theorem C2_first_fatal_error_wins_witness:
  "signing locked_env (demo_state False Software 2) =
     Returns ()
       \<lparr>ctrl = (ctrl (demo_state False Software 2))
                 \<lparr>ExecutionError := Some (MkError ''could not decrypt key'')\<rparr>,
        trace = [KsSignTx (AccountAt ''TXYZ'') (Some demo_tx)]\<rparr> \<and>
   SendSignedTx locked_env
     \<lparr>ctrl = (ctrl (demo_state False Software 2))
               \<lparr>ExecutionError := Some (MkError ''could not decrypt key'')\<rparr>,
      trace = [KsSignTx (AccountAt ''TXYZ'') (Some demo_tx)]\<rparr> =
     Returns ()
       \<lparr>ctrl = (ctrl (demo_state False Software 2))
                 \<lparr>ExecutionError := Some (MkError ''could not decrypt key'')\<rparr>,
        trace = [KsSignTx (AccountAt ''TXYZ'') (Some demo_tx)]\<rparr> \<and>
   TxConfirmation locked_env
     \<lparr>ctrl = (ctrl (demo_state False Software 2))
               \<lparr>ExecutionError := Some (MkError ''could not decrypt key'')\<rparr>,
      trace = [KsSignTx (AccountAt ''TXYZ'') (Some demo_tx)]\<rparr> =
     Returns ()
       \<lparr>ctrl = (ctrl (demo_state False Software 2))
                 \<lparr>ExecutionError := Some (MkError ''could not decrypt key'')\<rparr>,
        trace = [KsSignTx (AccountAt ''TXYZ'') (Some demo_tx)]\<rparr> \<and>
   ExecuteTransaction locked_env (demo_state False Software 2) =
     Returns (Some (MkError ''could not decrypt key''))
       \<lparr>ctrl = (ctrl (demo_state False Software 2))
                 \<lparr>ExecutionError := Some (MkError ''could not decrypt key'')\<rparr>,
        trace = [KsSignTx (AccountAt ''TXYZ'') (Some demo_tx)]\<rparr> \<and>
   returned (ExecuteTransaction demo_env (demo_state False Software 0)) = Some None"
proof -
  let ?s1 = "\<lparr>ctrl = (ctrl (demo_state False Software 2))
                 \<lparr>ExecutionError := Some (MkError ''could not decrypt key'')\<rparr>,
        trace = [KsSignTx (AccountAt ''TXYZ'') (Some demo_tx)]\<rparr>"
  have h1: "signing locked_env (demo_state False Software 2) = Returns () ?s1"
    by (simp add: signing_def SignTxForSending_def Let_def call_def demo_defs locked_env_def)
  have h2: "ExecutionError (ctrl ?s1) \<noteq> None"
    by simp
  have h3: "ExecutionError (ctrl ?s1) = Some (MkError ''could not decrypt key'')"
    by simp
  let ?t1 = "\<lparr>ctrl = (ctrl (demo_state False Software 0))
                 \<lparr>Tx := Some (demo_tx\<lparr>Signature := [''ks-sig'']\<rparr>)\<rparr>,
        trace = [KsSignTx (AccountAt ''TXYZ'') (Some demo_tx)]\<rparr>"
  let ?t2 = "\<lparr>ctrl = (ctrl (demo_state False Software 0))
                 \<lparr>Tx := Some (demo_tx\<lparr>Signature := [''ks-sig'']\<rparr>),
                  Result := Some \<lparr>Code = 0, Message = []\<rparr>\<rparr>,
        trace = [KsSignTx (AccountAt ''TXYZ'') (Some demo_tx),
                 ClientBroadcast (Some (demo_tx\<lparr>Signature := [''ks-sig'']\<rparr>))]\<rparr>"
  let ?t3 = "?t2\<lparr>ctrl := (ctrl ?t2)\<lparr>Receipt :=
               Some (zero_TransactionInfo\<lparr>Info_Receipt := Some zero_ResourceReceipt\<rparr>)\<rparr>\<rparr>"
  have g1: "signing demo_env (demo_state False Software 0) = Returns () ?t1"
    by (simp add: signing_def SignTxForSending_def Let_def call_def demo_defs)
  have g2: "SendSignedTx demo_env ?t1 = Returns () ?t2"
    by (simp add: SendSignedTx_def Let_def call_def demo_defs)
  have g3: "TxConfirmation demo_env ?t2 = Returns () ?t3"
    by (simp add: TxConfirmation_def Let_def demo_defs)
  have g4: "ExecutionError (ctrl ?t3) = None"
    by (simp add: demo_defs)
  from C2_first_fatal_error_wins [of ?s1 locked_env] h2
  have a: "SendSignedTx locked_env ?s1 = Returns () ?s1"
    "TxConfirmation locked_env ?s1 = Returns () ?s1"
    by blast+
  from C2_first_fatal_error_wins [of "demo_state False Software 2" locked_env _ _ ?s1] h1 h2
  have b: "ExecuteTransaction locked_env (demo_state False Software 2) =
             Returns (ExecutionError (ctrl ?s1)) ?s1"
    by blast
  from C2_first_fatal_error_wins [of "demo_state False Software 0" demo_env _ _ ?t1 ?t2 ?t3]
    g1 g2 g3
  have c: "ExecuteTransaction demo_env (demo_state False Software 0) =
             Returns (ExecutionError (ctrl ?t3)) ?t3"
    by blast
  have c': "returned (ExecuteTransaction demo_env (demo_state False Software 0)) = Some None"
    unfolding c using g4 by simp
  show ?thesis
    using h1 a b c' h3 by simp
qed

text \<open>
  Claim C3. Signing has succeeded, there is no dry run, the broadcast is acknowledged
  with code 0, the wait is positive and the hash can be computed. If the first \<open>n\<close>
  receipt queries fail, the next one returns a receipt with a non-zero status, and that
  query is within the budget (it is the first one, or \<open>n\<close> is at most the wait as the
  platform's \<open>int\<close> reads it, plus one), then \<open>ExecuteTransaction\<close> returns nil, the
  receipt is stored, and \<open>GetResultError\<close> returns the error whose text is the result
  message of the receipt.
\<close>

theorem C3_result_error_is_informational:
  assumes "signing E s = Returns () s1"
    and "ExecutionError (ctrl s1) = None"
    and "\<not> DryRun (Behavior (ctrl s1))"
    and "Client_Broadcast E (trace s1) (Tx (ctrl s1)) = (Some ack, None)"
    and "Code ack = 0"
    and "0 < ConfirmationWaitTime (Behavior (ctrl s1))"
    and "TransactionHash E (ctrl s1) = (h, None)"
    and "n = 0 \<or>
         int n \<le> int_of_uint32 (arch E) (ConfirmationWaitTime (Behavior (ctrl s1))) + 1"
    and "\<forall>j<n. snd (Client_GetTransactionInfoByID E
                       (trace s1 @ ClientBroadcast (Tx (ctrl s1)) # waits h j) h) \<noteq> None"
    and "Client_GetTransactionInfoByID E
           (trace s1 @ ClientBroadcast (Tx (ctrl s1)) # waits h n) h = (Some txi, None)"
    and "Info_Result txi \<noteq> 0"
  shows "ExecuteTransaction E s =
           Returns None
             \<lparr>ctrl = (ctrl s1)\<lparr>resultError := Some (MkError (ResMessage txi)),
                                Result := Some ack, Receipt := Some txi\<rparr>,
              trace = trace s1 @ ClientBroadcast (Tx (ctrl s1)) # waits h n
                        @ [ClientGetTransactionInfoByID h]\<rparr> \<and>
         GetResultError (ctrl (final (ExecuteTransaction E s))) =
           Some (MkError (ResMessage txi)) \<and>
         Receipt (ctrl (final (ExecuteTransaction E s))) = Some txi"
proof -
  let ?s2 = "\<lparr>ctrl = (ctrl s1)\<lparr>Result := Some ack\<rparr>,
             trace = trace s1 @ [ClientBroadcast (Tx (ctrl s1))]\<rparr>"
  let ?s3 = "\<lparr>ctrl = (ctrl s1)\<lparr>resultError := Some (MkError (ResMessage txi)),
                                Result := Some ack, Receipt := Some txi\<rparr>,
              trace = trace s1 @ ClientBroadcast (Tx (ctrl s1)) # waits h n
                        @ [ClientGetTransactionInfoByID h]\<rparr>"
  have send: "SendSignedTx E s1 = Returns () ?s2"
    using assms(2-5) by (rule SendSignedTx_accepted)
  have p1: "\<forall>j<n. snd (Client_GetTransactionInfoByID E (trace ?s2 @ waits h j) h) \<noteq> None"
    using assms(9) by simp
  have p2: "Client_GetTransactionInfoByID E (trace ?s2 @ waits h n) h = (Some txi, None)"
    using assms(10) by simp
  have p3: "n = 0 \<or>
            int n \<le> int_of_uint32 (arch E) (ConfirmationWaitTime (Behavior (ctrl ?s2))) + 1"
    using assms(8) by simp
  have poll: "poll E h (int_of_uint32 (arch E) (ConfirmationWaitTime (Behavior (ctrl ?s2)))) ?s2 =
                Returns () ?s3"
    unfolding poll_found_after [OF p1 p2 p3] using assms(11) by simp
  have conf: "TxConfirmation E ?s2 = Returns () ?s3"
    using assms(2,3,6,7) poll
    by (simp add: TxConfirmation_def Let_def TransactionHash_Result_update)
  have exec: "ExecuteTransaction E s = Returns None ?s3"
    using assms(1,2) send conf
    by (simp add: ExecuteTransaction_signing and_then_def)
  show ?thesis
    unfolding exec by (simp add: GetResultError_def)
qed

text \<open>
  An instance: a wait of 2 seconds and a network that has the receipt of a reverted
  execution at the second query.
\<close>

theorem C3_result_error_is_informational_witness:
  "ExecuteTransaction late_receipt_env (demo_state False Software 2) =
     Returns None
       \<lparr>ctrl = (ctrl (demo_state False Software 2))
                 \<lparr>resultError := Some (MkError ''REVERT opcode executed''),
                  Tx := Some (demo_tx\<lparr>Signature := [''ks-sig'']\<rparr>),
                  Result := Some \<lparr>Code = 0, Message = []\<rparr>,
                  Receipt := Some failed_receipt\<rparr>,
        trace = [KsSignTx (AccountAt ''TXYZ'') (Some demo_tx),
                 ClientBroadcast (Some (demo_tx\<lparr>Signature := [''ks-sig'']\<rparr>)),
                 ClientGetTransactionInfoByID ''0xrefsnart'', Sleep,
                 ClientGetTransactionInfoByID ''0xrefsnart'']\<rparr> \<and>
   GetResultError (ctrl (final (ExecuteTransaction late_receipt_env
                                  (demo_state False Software 2)))) =
     Some (MkError ''REVERT opcode executed'') \<and>
   Info_Result failed_receipt \<noteq> 0"
proof -
  let ?s1 = "\<lparr>ctrl = (ctrl (demo_state False Software 2))
                 \<lparr>Tx := Some (demo_tx\<lparr>Signature := [''ks-sig'']\<rparr>)\<rparr>,
        trace = [KsSignTx (AccountAt ''TXYZ'') (Some demo_tx)]\<rparr>"
  let ?ack = "\<lparr>Code = 0, Message = []\<rparr>"
  let ?h = "''0xrefsnart''"
  have h1: "signing late_receipt_env (demo_state False Software 2) = Returns () ?s1"
    by (simp add: signing_def SignTxForSending_def Let_def call_def demo_defs
          late_receipt_env_def)
  have h2: "ExecutionError (ctrl ?s1) = None"
    and h3: "\<not> DryRun (Behavior (ctrl ?s1))"
    and h4: "Client_Broadcast late_receipt_env (trace ?s1) (Tx (ctrl ?s1)) = (Some ?ack, None)"
    and h5: "Code ?ack = 0"
    and h6: "0 < ConfirmationWaitTime (Behavior (ctrl ?s1))"
    and h7: "TransactionHash late_receipt_env (ctrl ?s1) = (?h, None)"
    and h8: "(1::nat) = 0 \<or>
             int 1 \<le> int_of_uint32 (arch late_receipt_env)
                        (ConfirmationWaitTime (Behavior (ctrl ?s1))) + 1"
    by (simp_all add: demo_defs late_receipt_env_def TransactionHash_def GetRawData_def
          Tx_GetRawData_def int_of_uint32_def)
  have h9: "\<forall>j<1. snd (Client_GetTransactionInfoByID late_receipt_env
                       (trace ?s1 @ ClientBroadcast (Tx (ctrl ?s1)) # waits ?h j) ?h) \<noteq> None"
    by (simp add: late_receipt_env_def demo_env_def waits_def)
  have h10: "Client_GetTransactionInfoByID late_receipt_env
           (trace ?s1 @ ClientBroadcast (Tx (ctrl ?s1)) # waits ?h 1) ?h =
             (Some failed_receipt, None)"
    by (simp add: late_receipt_env_def demo_env_def waits_def)
  have h11: "Info_Result failed_receipt \<noteq> 0"
    by (simp add: failed_receipt_def)
  have m: "ResMessage failed_receipt = ''REVERT opcode executed''"
    by (simp add: failed_receipt_def)
  show ?thesis
    using h11 C3_result_error_is_informational [OF h1 h2 h3 h4 h5 h6 h7 h8 h9 h10 h11]
    by (simp add: m waits_def GetResultError_def)
qed

text \<open>
  Claim C4. Signing has succeeded, there is no dry run, the broadcast is acknowledged
  with code 0, the wait is 2 seconds and the hash can be computed, so that the polling
  loop is entered. If every receipt lookup returns an error, of whatever kind, each one
  is taken as not yet available and retried; the loop ends, on either platform, and
  \<open>ExecuteTransaction\<close> returns the timeout error. The receipt has been asked for 4
  times, with the budget at 2, 1, 0 and \<open>-1\<close>, with 3 sleeps of a second in between:
  the budget is tested after the query, and the loop stops once it is negative.
\<close>

theorem C4_timeout_boundary:
  assumes "signing E s = Returns () s1"
    and "ExecutionError (ctrl s1) = None"
    and "\<not> DryRun (Behavior (ctrl s1))"
    and "Client_Broadcast E (trace s1) (Tx (ctrl s1)) = (Some ack, None)"
    and "Code ack = 0"
    and "ConfirmationWaitTime (Behavior (ctrl s1)) = 2"
    and "TransactionHash E (ctrl s1) = (h, None)"
    and "\<forall>tr. snd (Client_GetTransactionInfoByID E tr h) \<noteq> None"
  shows "ExecuteTransaction E s =
           Returns (Some (MkError ''could not confirm transaction after 2 seconds''))
             \<lparr>ctrl = (ctrl s1)
                \<lparr>ExecutionError :=
                   Some (MkError ''could not confirm transaction after 2 seconds''),
                 Result := Some ack\<rparr>,
              trace = trace s1 @
                [ClientBroadcast (Tx (ctrl s1)),
                 ClientGetTransactionInfoByID h, Sleep,
                 ClientGetTransactionInfoByID h, Sleep,
                 ClientGetTransactionInfoByID h, Sleep,
                 ClientGetTransactionInfoByID h]\<rparr> \<and>
         length (filter is_query (new_events s (ExecuteTransaction E s))) = 4 \<and>
         length (filter (\<lambda>ev. ev = Sleep) (new_events s (ExecuteTransaction E s))) = 3"
proof -
  let ?e = "MkError ''could not confirm transaction after 2 seconds''"
  let ?q = "ClientGetTransactionInfoByID h"
  let ?s2 = "\<lparr>ctrl = (ctrl s1)\<lparr>Result := Some ack\<rparr>,
             trace = trace s1 @ [ClientBroadcast (Tx (ctrl s1))]\<rparr>"
  let ?s3 = "\<lparr>ctrl = (ctrl s1)\<lparr>ExecutionError := Some ?e, Result := Some ack\<rparr>,
             trace = trace s1 @
                [ClientBroadcast (Tx (ctrl s1)), ?q, Sleep, ?q, Sleep, ?q, Sleep, ?q]\<rparr>"
  have send: "SendSignedTx E s1 = Returns () ?s2"
    using assms(2-5) by (rule SendSignedTx_accepted)
  have te: "timeout_error 2 = ?e"
    by (simp add: timeout_error_def fmt_d.simps digit_char_def)
  have w: "waits h 3 = [?q, Sleep, ?q, Sleep, ?q, Sleep]"
    by (simp add: waits_def numeral_3_eq_3)
  have lo: "- 1 \<le> (2::int)" by simp
  have st: "int_of_uint32 (arch E) 2 = 2"
    by (cases "arch E") (simp_all add: int_of_uint32_def)
  have poll: "poll E h 2 ?s2 = Returns () ?s3"
    unfolding poll_never [OF assms(8) lo] using assms(6) by (simp add: te w)
  have conf: "TxConfirmation E ?s2 = Returns () ?s3"
    using assms(2,3,6,7) poll
    by (simp add: TxConfirmation_def Let_def TransactionHash_Result_update st)
  have exec: "ExecuteTransaction E s = Returns (Some ?e) ?s3"
    using assms(1) send conf
    by (simp add: ExecuteTransaction_signing and_then_def)
  obtain evs where evs: "trace s1 = trace s @ evs" "\<forall>ev \<in> set evs. is_sign ev"
    using assms(1) by (rule signing_new_events)
  have ne: "new_events s (ExecuteTransaction E s) =
              evs @ [ClientBroadcast (Tx (ctrl s1)), ?q, Sleep, ?q, Sleep, ?q, Sleep, ?q]"
    unfolding exec using evs(1) by (simp add: new_events_def)
  have "\<forall>ev \<in> set evs. \<not> is_query ev" using evs(2) sign_event_kinds by blast
  then have f1: "filter is_query evs = []" by (simp add: filter_empty_conv)
  have "\<forall>ev \<in> set evs. ev \<noteq> Sleep" using evs(2) by auto
  then have f2: "filter (\<lambda>ev. ev = Sleep) evs = []" by (simp add: filter_empty_conv)
  show ?thesis
    unfolding ne using exec f1 f2 by simp
qed

text \<open>
  An instance: the example network, which never has a receipt, and a wait of 2 seconds.
\<close>

theorem C4_timeout_boundary_witness:
  "ConfirmationWaitTime (Behavior (ctrl (demo_state False Software 2))) = 2 \<and>
   ExecuteTransaction demo_env (demo_state False Software 2) =
     Returns (Some (MkError ''could not confirm transaction after 2 seconds''))
       \<lparr>ctrl = (ctrl (demo_state False Software 2))
                 \<lparr>ExecutionError :=
                    Some (MkError ''could not confirm transaction after 2 seconds''),
                  Tx := Some (demo_tx\<lparr>Signature := [''ks-sig'']\<rparr>),
                  Result := Some \<lparr>Code = 0, Message = []\<rparr>\<rparr>,
        trace = [KsSignTx (AccountAt ''TXYZ'') (Some demo_tx),
                 ClientBroadcast (Some (demo_tx\<lparr>Signature := [''ks-sig'']\<rparr>)),
                 ClientGetTransactionInfoByID ''0xrefsnart'', Sleep,
                 ClientGetTransactionInfoByID ''0xrefsnart'', Sleep,
                 ClientGetTransactionInfoByID ''0xrefsnart'', Sleep,
                 ClientGetTransactionInfoByID ''0xrefsnart'']\<rparr>"
proof -
  let ?s1 = "\<lparr>ctrl = (ctrl (demo_state False Software 2))
                 \<lparr>Tx := Some (demo_tx\<lparr>Signature := [''ks-sig'']\<rparr>)\<rparr>,
        trace = [KsSignTx (AccountAt ''TXYZ'') (Some demo_tx)]\<rparr>"
  let ?ack = "\<lparr>Code = 0, Message = []\<rparr>"
  let ?h = "''0xrefsnart''"
  have h1: "signing demo_env (demo_state False Software 2) = Returns () ?s1"
    by (simp add: signing_def SignTxForSending_def Let_def call_def demo_defs)
  have h2: "ExecutionError (ctrl ?s1) = None"
    and h3: "\<not> DryRun (Behavior (ctrl ?s1))"
    and h4: "Client_Broadcast demo_env (trace ?s1) (Tx (ctrl ?s1)) = (Some ?ack, None)"
    and h5: "Code ?ack = 0"
    and h6: "ConfirmationWaitTime (Behavior (ctrl ?s1)) = 2"
    and h7: "TransactionHash demo_env (ctrl ?s1) = (?h, None)"
    and h8: "\<forall>tr. snd (Client_GetTransactionInfoByID demo_env tr ?h) \<noteq> None"
    and h9: "ConfirmationWaitTime (Behavior (ctrl (demo_state False Software 2))) = 2"
    by (simp_all add: demo_defs TransactionHash_def GetRawData_def Tx_GetRawData_def)
  show ?thesis
    using h9 C4_timeout_boundary [OF h1 h2 h3 h4 h5 h6 h7 h8]
    by simp
qed

text \<open>
  Claim C5, as the code has it. In a dry run \<open>ExecuteTransaction\<close> is the signing step
  alone: it calls neither the broadcast nor the receipt lookup, and it leaves the receipt
  field as it found it, nil on a fresh controller. The guard of \<open>TxConfirmation\<close>
  returns before the empty receipt of the zero-wait branch is made.
\<close>

theorem C5_dry_run:
  assumes "DryRun (Behavior (ctrl s))"
  shows "ExecuteTransaction E s =
           and_then (signing E s) (\<lambda>s1. Returns (ExecutionError (ctrl s1)) s1) \<and>
         (\<forall>ev \<in> set (new_events s (ExecuteTransaction E s)).
            \<not> is_broadcast ev \<and> \<not> is_query ev) \<and>
         Receipt (ctrl (final (ExecuteTransaction E s))) = Receipt (ctrl s)"
proof -
  have dry: "DryRun (Behavior (ctrl (final (signing E s))))"
    using assms by (simp add: signing_frame)
  have eq: "ExecuteTransaction E s =
           and_then (signing E s) (\<lambda>s1. Returns (ExecutionError (ctrl s1)) s1)"
  proof (cases "signing E s")
    case (Returns u s1)
    then have "DryRun (Behavior (ctrl s1))" using dry by simp
    then show ?thesis using Returns
      by (simp add: ExecuteTransaction_signing and_then_def SendSignedTx_noop
            TxConfirmation_noop)
  next
    case (Panics p)
    then show ?thesis by (simp add: ExecuteTransaction_signing and_then_def)
  qed
  have fin: "final (ExecuteTransaction E s) = final (signing E s)"
    by (cases "signing E s") (simp_all add: eq and_then_def)
  obtain evs where evs: "trace (final (signing E s)) = trace s @ evs"
    "\<forall>ev \<in> set evs. is_sign ev"
    using signing_trace by blast
  have "new_events s (ExecuteTransaction E s) = evs"
    using fin evs(1) by (simp add: new_events_def)
  then have quiet: "\<forall>ev \<in> set (new_events s (ExecuteTransaction E s)).
            \<not> is_broadcast ev \<and> \<not> is_query ev"
    using evs(2) sign_event_kinds by auto
  have "Receipt (ctrl (final (ExecuteTransaction E s))) = Receipt (ctrl s)"
    using fin by (simp add: signing_frame)
  then show ?thesis using eq quiet by blast
qed

text \<open>
  An instance: a dry run on a fresh controller signs and stops.
\<close>

theorem C5_dry_run_witness:
  "DryRun (Behavior (ctrl (demo_state True Software 0))) \<and>
   ExecuteTransaction demo_env (demo_state True Software 0) =
     Returns None
       \<lparr>ctrl = (ctrl (demo_state True Software 0))
                 \<lparr>Tx := Some (demo_tx\<lparr>Signature := [''ks-sig'']\<rparr>)\<rparr>,
        trace = [KsSignTx (AccountAt ''TXYZ'') (Some demo_tx)]\<rparr> \<and>
   Receipt (ctrl (final (ExecuteTransaction demo_env (demo_state True Software 0)))) = None"
proof -
  have h: "DryRun (Behavior (ctrl (demo_state True Software 0)))"
    by (simp add: demo_defs)
  have sign: "signing demo_env (demo_state True Software 0) =
     Returns ()
       \<lparr>ctrl = (ctrl (demo_state True Software 0))
                 \<lparr>Tx := Some (demo_tx\<lparr>Signature := [''ks-sig'']\<rparr>)\<rparr>,
        trace = [KsSignTx (AccountAt ''TXYZ'') (Some demo_tx)]\<rparr>"
    by (simp add: signing_def SignTxForSending_def Let_def call_def demo_defs)
  have r: "Receipt (ctrl (demo_state True Software 0)) = None"
    "ExecutionError (ctrl (demo_state True Software 0)) = None"
    by (simp_all add: demo_defs)
  show ?thesis
    using h C5_dry_run [OF h, of demo_env]
    by (simp add: sign r and_then_def)
qed

text \<open>
  After a dry run without a fatal error on a fresh controller the receipt is nil, not an
  empty receipt.
\<close>

theorem C5_dry_run_counterexample:
  "DryRun (Behavior (ctrl (demo_state True Software 0))) \<and>
   ExecutionError (ctrl (demo_state True Software 0)) = None \<and>
   returned (ExecuteTransaction demo_env (demo_state True Software 0)) = Some None \<and>
   Receipt (ctrl (final (ExecuteTransaction demo_env (demo_state True Software 0)))) = None \<and>
   Receipt (ctrl (final (ExecuteTransaction demo_env (demo_state True Software 0)))) \<noteq>
     Some (zero_TransactionInfo\<lparr>Info_Receipt := Some zero_ResourceReceipt\<rparr>)"
  by (simp add: ExecuteTransaction_def SignTxForSending_def SendSignedTx_def
        TxConfirmation_def and_then_def Let_def call_def demo_defs)

text \<open>
  Claim C6. Signing has succeeded and there is no dry run. If the broadcast is
  acknowledged with a non-zero code, \<open>ExecuteTransaction\<close> returns the fatal error
  whose text is \<open>bad transaction: \<close> followed by the message of the acknowledgment, so
  the text contains the message (empty or not), and the broadcast is the last call: no
  receipt is asked for.
\<close>

theorem C6_broadcast_rejection:
  assumes "signing E s = Returns () s1"
    and "ExecutionError (ctrl s1) = None"
    and "\<not> DryRun (Behavior (ctrl s1))"
    and "Client_Broadcast E (trace s1) (Tx (ctrl s1)) = (Some ack, None)"
    and "Code ack \<noteq> 0"
  shows "ExecuteTransaction E s =
           Returns (Some (MkError (''bad transaction: '' @ Message ack)))
             \<lparr>ctrl = (ctrl s1)
                \<lparr>ExecutionError := Some (MkError (''bad transaction: '' @ Message ack)),
                 Result := Some ack\<rparr>,
              trace = trace s1 @ [ClientBroadcast (Tx (ctrl s1))]\<rparr> \<and>
         (\<exists>e. returned (ExecuteTransaction E s) = Some (Some e) \<and>
              sublist (Message ack) (Error e)) \<and>
         (\<forall>ev \<in> set (new_events s (ExecuteTransaction E s)). \<not> is_query ev)"
proof -
  let ?e = "MkError (''bad transaction: '' @ Message ack)"
  let ?s' = "\<lparr>ctrl = (ctrl s1)\<lparr>ExecutionError := Some ?e, Result := Some ack\<rparr>,
             trace = trace s1 @ [ClientBroadcast (Tx (ctrl s1))]\<rparr>"
  have send: "SendSignedTx E s1 = Returns () ?s'"
    using assms(2-5) by (rule SendSignedTx_rejected)
  have conf: "TxConfirmation E ?s' = Returns () ?s'"
    by (simp add: TxConfirmation_noop)
  have exec: "ExecuteTransaction E s = Returns (Some ?e) ?s'"
    using assms(1) send conf by (simp add: ExecuteTransaction_signing and_then_def)
  obtain evs where evs: "trace s1 = trace s @ evs" "\<forall>ev \<in> set evs. is_sign ev"
    using assms(1) by (rule signing_new_events)
  have "new_events s (ExecuteTransaction E s) = evs @ [ClientBroadcast (Tx (ctrl s1))]"
    using exec evs(1) by (simp add: new_events_def)
  then have quiet: "\<forall>ev \<in> set (new_events s (ExecuteTransaction E s)). \<not> is_query ev"
    using evs(2) sign_event_kinds by auto
  have "sublist (Message ack) (Error ?e)"
    by (simp add: sublist_appendI [of "Message ack" "''bad transaction: ''" "[]", simplified])
  then have "\<exists>e. returned (ExecuteTransaction E s) = Some (Some e) \<and>
              sublist (Message ack) (Error e)"
    using exec by simp
  then show ?thesis using exec quiet by blast
qed

text \<open>
  An instance: the network that rejects the broadcast with the message \<open>SIGERROR\<close>.
\<close>

theorem C6_broadcast_rejection_witness:
  "signing rejecting_env (demo_state False Software 2) =
     Returns ()
       \<lparr>ctrl = (ctrl (demo_state False Software 2))
                 \<lparr>Tx := Some (demo_tx\<lparr>Signature := [''ks-sig'']\<rparr>)\<rparr>,
        trace = [KsSignTx (AccountAt ''TXYZ'') (Some demo_tx)]\<rparr> \<and>
   ExecuteTransaction rejecting_env (demo_state False Software 2) =
     Returns (Some (MkError ''bad transaction: SIGERROR''))
       \<lparr>ctrl = (ctrl (demo_state False Software 2))
                 \<lparr>ExecutionError := Some (MkError ''bad transaction: SIGERROR''),
                  Tx := Some (demo_tx\<lparr>Signature := [''ks-sig'']\<rparr>),
                  Result := Some \<lparr>Code = 1, Message = ''SIGERROR''\<rparr>\<rparr>,
        trace = [KsSignTx (AccountAt ''TXYZ'') (Some demo_tx),
                 ClientBroadcast (Some (demo_tx\<lparr>Signature := [''ks-sig'']\<rparr>))]\<rparr> \<and>
   (\<exists>e. returned (ExecuteTransaction rejecting_env (demo_state False Software 2)) =
          Some (Some e) \<and> sublist ''SIGERROR'' (Error e))"
proof -
  let ?s1 = "\<lparr>ctrl = (ctrl (demo_state False Software 2))
                 \<lparr>Tx := Some (demo_tx\<lparr>Signature := [''ks-sig'']\<rparr>)\<rparr>,
        trace = [KsSignTx (AccountAt ''TXYZ'') (Some demo_tx)]\<rparr>"
  let ?ack = "\<lparr>Code = 1, Message = ''SIGERROR''\<rparr>"
  have h1: "signing rejecting_env (demo_state False Software 2) = Returns () ?s1"
    by (simp add: signing_def SignTxForSending_def Let_def call_def demo_defs rejecting_env_def)
  have h2: "ExecutionError (ctrl ?s1) = None"
    and h3: "\<not> DryRun (Behavior (ctrl ?s1))"
    and h4: "Client_Broadcast rejecting_env (trace ?s1) (Tx (ctrl ?s1)) = (Some ?ack, None)"
    and h5: "Code ?ack \<noteq> 0"
    by (simp_all add: demo_defs rejecting_env_def)
  show ?thesis
    using h1 C6_broadcast_rejection [OF h1 h2 h3 h4 h5]
    by (auto simp add: demo_defs)
qed

text \<open>
  Claim C7. With a confirmation wait of 0 seconds, no fatal error and no dry run,
  \<open>TxConfirmation\<close> calls no collaborator, so it asks the network for no receipt, and
  stores a synthesized empty receipt: a zero \<open>TransactionInfo\<close> whose resource receipt
  is a zero \<open>ResourceReceipt\<close>.
\<close>

theorem C7_zero_wait_skip:
  assumes "ConfirmationWaitTime (Behavior (ctrl s)) = 0"
    and "ExecutionError (ctrl s) = None"
    and "\<not> DryRun (Behavior (ctrl s))"
  shows "TxConfirmation E s =
           Returns ()
             (s\<lparr>ctrl := (ctrl s)\<lparr>Receipt :=
                Some \<lparr>Info_Result = 0, ResMessage = [],
                      Info_Receipt = Some zero_ResourceReceipt\<rparr>\<rparr>\<rparr>) \<and>
         new_events s (TxConfirmation E s) = []"
  using assms by (simp add: TxConfirmation_def zero_TransactionInfo_def new_events_def)

text \<open>
  An instance: a fresh controller with the default wait of 0 seconds.
\<close>

theorem C7_zero_wait_skip_witness:
  "ConfirmationWaitTime (Behavior (ctrl (demo_state False Software 0))) = 0 \<and>
   ExecutionError (ctrl (demo_state False Software 0)) = None \<and>
   \<not> DryRun (Behavior (ctrl (demo_state False Software 0))) \<and>
   Receipt (ctrl (final (TxConfirmation demo_env (demo_state False Software 0)))) =
     Some \<lparr>Info_Result = 0, ResMessage = [],
           Info_Receipt = Some \<lparr>EnergyUsage = 0, EnergyFee = 0, NetUsage = 0, NetFee = 0,
                                ContractResult = 0\<rparr>\<rparr> \<and>
   new_events (demo_state False Software 0)
     (TxConfirmation demo_env (demo_state False Software 0)) = []"
proof -
  have h1: "ConfirmationWaitTime (Behavior (ctrl (demo_state False Software 0))) = 0"
    and h2: "ExecutionError (ctrl (demo_state False Software 0)) = None"
    and h3: "\<not> DryRun (Behavior (ctrl (demo_state False Software 0)))"
    by (simp_all add: demo_defs)
  show ?thesis
    using h1 h2 h3 C7_zero_wait_skip [OF h1 h2 h3, of demo_env]
    by (simp add: zero_ResourceReceipt_def new_events_def)
qed

text \<open>
  Claim C8. When the raw payload encodes, \<open>TransactionHash\<close> is the hexadecimal form of
  the digest of the encoding. It reads nothing but the raw payload: a controller with the
  same raw payload has the same hash, so a second call on the unmodified transaction
  returns the same string; appending a signature to the signature list leaves the hash
  unchanged, and so does the hardware signing step, which appends one.
\<close>

theorem C8_hash_determinism:
  assumes "snd (GetRawData E C) = None" and "Tx C = Some t"
  shows "TransactionHash E C = (common_ToHex E (sha256_Sum E (fst (GetRawData E C))), None) \<and>
         (Tx_GetRawData (Tx C') = Tx_GetRawData (Tx C) \<longrightarrow>
            TransactionHash E C' = TransactionHash E C) \<and>
         TransactionHash E (C\<lparr>Tx := Some (t\<lparr>Signature := Signature t @ [signature]\<rparr>)\<rparr>) =
           TransactionHash E C \<and>
         (ctrl s = C \<longrightarrow>
            TransactionHash E (ctrl (final (HardwareSignTxForSending E s))) =
              TransactionHash E C)"
  using assms
  by (auto simp add: TransactionHash_def GetRawData_def Tx_GetRawData_def
        HardwareSignTxForSending_def Let_def call_def
      split: prod.splits option.splits)

text \<open>
  An instance: the example transaction, before and after the Ledger has signed it.
\<close>

theorem C8_hash_determinism_witness:
  "snd (GetRawData demo_env (ctrl (demo_state False Ledger 0))) = None \<and>
   Tx (ctrl (demo_state False Ledger 0)) = Some demo_tx \<and>
   TransactionHash demo_env (ctrl (demo_state False Ledger 0)) = (''0xrefsnart'', None) \<and>
   TransactionHash demo_env
     ((ctrl (demo_state False Ledger 0))
        \<lparr>Tx := Some (demo_tx\<lparr>Signature := Signature demo_tx @ [''hw-sig'']\<rparr>)\<rparr>) =
     (''0xrefsnart'', None) \<and>
   TransactionHash demo_env
     (ctrl (final (HardwareSignTxForSending demo_env (demo_state False Ledger 0)))) =
     (''0xrefsnart'', None)"
proof -
  have h1: "snd (GetRawData demo_env (ctrl (demo_state False Ledger 0))) = None"
    and h2: "Tx (ctrl (demo_state False Ledger 0)) = Some demo_tx"
    by (simp_all add: demo_defs GetRawData_def Tx_GetRawData_def)
  have h3: "TransactionHash demo_env (ctrl (demo_state False Ledger 0)) = (''0xrefsnart'', None)"
    by (simp add: demo_defs TransactionHash_def GetRawData_def Tx_GetRawData_def)
  show ?thesis
    using h1 h2 h3
      C8_hash_determinism [OF h1 h2, of "ctrl (demo_state False Ledger 0)" "''hw-sig''"
        "demo_state False Ledger 0"]
    by simp
qed

text \<open>
  Claim C9. When the raw payload fails to encode, \<open>TransactionHash\<close> returns the
  encoding error, while \<open>HardwareSignTxForSending\<close> drops it: its first call is the
  Ledger signer, on whatever bytes the encoder returned beside the error, and if the
  signer returns no error its signature is appended to the transaction and no fatal
  error is recorded.
\<close>

theorem C9_hardware_sign_drops_encoding_error:
  assumes "ExecutionError (ctrl s) = None"
    and "Tx (ctrl s) = Some t"
    and "GetRawData E (ctrl s) = (data, Some err)"
  shows "TransactionHash E (ctrl s) = ('''', Some err) \<and>
         take 1 (new_events s (HardwareSignTxForSending E s)) = [LedgerSignTx data] \<and>
         (snd (ledger_SignTx E (trace s) data) = None \<longrightarrow>
            HardwareSignTxForSending E s =
              Returns ()
                \<lparr>ctrl = (ctrl s)\<lparr>Tx := Some (t\<lparr>Signature :=
                           Signature t @ [fst (ledger_SignTx E (trace s) data)]\<rparr>)\<rparr>,
                 trace = trace s @ [LedgerSignTx data]\<rparr> \<and>
            ExecutionError (ctrl (final (HardwareSignTxForSending E s))) = None)"
  using assms
  by (auto simp add: TransactionHash_def HardwareSignTxForSending_def Let_def call_def
        new_events_def
      split: prod.splits option.splits)

text \<open>
  An instance: on the network whose encoder fails, the Ledger signs the empty byte string.
\<close>

theorem C9_hardware_sign_drops_encoding_error_witness:
  "ExecutionError (ctrl (demo_state False Ledger 0)) = None \<and>
   Tx (ctrl (demo_state False Ledger 0)) = Some demo_tx \<and>
   GetRawData failing_marshal_env (ctrl (demo_state False Ledger 0)) =
     ([], Some (MkError ''proto: cannot encode'')) \<and>
   TransactionHash failing_marshal_env (ctrl (demo_state False Ledger 0)) =
     ('''', Some (MkError ''proto: cannot encode'')) \<and>
   HardwareSignTxForSending failing_marshal_env (demo_state False Ledger 0) =
     Returns ()
       \<lparr>ctrl = (ctrl (demo_state False Ledger 0))
                 \<lparr>Tx := Some (demo_tx\<lparr>Signature := [''hw-sig'']\<rparr>)\<rparr>,
        trace = [LedgerSignTx []]\<rparr>"
proof -
  have h1: "ExecutionError (ctrl (demo_state False Ledger 0)) = None"
    and h2: "Tx (ctrl (demo_state False Ledger 0)) = Some demo_tx"
    and h3: "GetRawData failing_marshal_env (ctrl (demo_state False Ledger 0)) =
               ([], Some (MkError ''proto: cannot encode''))"
    by (simp_all add: demo_defs failing_marshal_env_def GetRawData_def)
  have h4: "ledger_SignTx failing_marshal_env [] [] = (''hw-sig'', None)"
    and h5: "Signature demo_tx = []" and h6: "trace (demo_state False Ledger 0) = []"
    by (simp_all add: demo_defs failing_marshal_env_def)
  show ?thesis
    using h1 h2 h3 C9_hardware_sign_drops_encoding_error [OF h1 h2 h3]
    by (simp add: h4 h5 h6)
qed

text \<open>
  Claim C10. For a signer that is neither \<open>Software\<close> nor \<open>Ledger\<close>,
  \<open>ExecuteTransaction\<close> is the broadcast followed by the confirmation: it calls no
  signer and records no fatal error for the unknown variant, and when there is no earlier
  fatal error and no dry run its first call broadcasts the transaction as it stands,
  unsigned.
\<close>

theorem C10_unknown_signer:
  assumes "SigningImpl (Behavior (ctrl s)) = OtherImpl k"
  shows "ExecuteTransaction E s =
           and_then (SendSignedTx E s)
             (\<lambda>s2. and_then (TxConfirmation E s2)
                (\<lambda>s3. Returns (ExecutionError (ctrl s3)) s3)) \<and>
         (\<forall>ev \<in> set (new_events s (ExecuteTransaction E s)). \<not> is_sign ev) \<and>
         (ExecutionError (ctrl s) = None \<and> \<not> DryRun (Behavior (ctrl s)) \<longrightarrow>
            take 1 (new_events s (ExecuteTransaction E s)) = [ClientBroadcast (Tx (ctrl s))])"
proof -
  have sign: "signing E s = Returns () s"
    using assms by (simp add: signing_def)
  have eq: "ExecuteTransaction E s =
           and_then (SendSignedTx E s)
             (\<lambda>s2. and_then (TxConfirmation E s2)
                (\<lambda>s3. Returns (ExecutionError (ctrl s3)) s3))"
    using sign by (simp add: ExecuteTransaction_signing and_then_def)
  obtain s2 where s2: "s2 = final (SendSignedTx E s)" by simp
  obtain evs where evs: "trace (final (TxConfirmation E s2)) = trace s2 @ evs"
    "\<forall>ev \<in> set evs. is_query ev \<or> ev = Sleep"
    using TxConfirmation_trace by blast
  let ?b = "if ExecutionError (ctrl s) \<noteq> None \<or> DryRun (Behavior (ctrl s)) then []
            else [ClientBroadcast (Tx (ctrl s))]"
  have tr2: "trace s2 = trace s @ ?b"
    unfolding s2 by (rule SendSignedTx_trace)
  have "new_events s (ExecuteTransaction E s) = ?b \<or>
        new_events s (ExecuteTransaction E s) = ?b @ evs"
  proof (cases "SendSignedTx E s")
    case (Panics p)
    then show ?thesis using tr2 s2 by (simp add: eq and_then_def new_events_def)
  next
    case send: (Returns u p)
    then have p: "p = s2" using s2 by simp
    show ?thesis
      by (cases "TxConfirmation E s2")
         (use tr2 evs send p in \<open>simp_all add: eq and_then_def new_events_def\<close>)
  qed
  moreover have "\<forall>ev \<in> set evs. \<not> is_sign ev"
    using evs(2) polling_event_kinds by blast
  ultimately have "(\<forall>ev \<in> set (new_events s (ExecuteTransaction E s)). \<not> is_sign ev) \<and>
         (ExecutionError (ctrl s) = None \<and> \<not> DryRun (Behavior (ctrl s)) \<longrightarrow>
            take 1 (new_events s (ExecuteTransaction E s)) = [ClientBroadcast (Tx (ctrl s))])"
    by (auto split: if_splits)
  then show ?thesis using eq by blast
qed

text \<open>
  An instance: with the signer number 7, the only call is the broadcast of the unsigned
  example transaction.
\<close>

theorem C10_unknown_signer_witness:
  "SigningImpl (Behavior (ctrl (demo_state False (OtherImpl 7) 0))) = OtherImpl 7 \<and>
   ExecutionError (ctrl (demo_state False (OtherImpl 7) 0)) = None \<and>
   \<not> DryRun (Behavior (ctrl (demo_state False (OtherImpl 7) 0))) \<and>
   new_events (demo_state False (OtherImpl 7) 0)
     (ExecuteTransaction demo_env (demo_state False (OtherImpl 7) 0)) =
     [ClientBroadcast (Some demo_tx)] \<and>
   Tx (ctrl (final (ExecuteTransaction demo_env (demo_state False (OtherImpl 7) 0)))) =
     Some demo_tx"
proof -
  have h: "SigningImpl (Behavior (ctrl (demo_state False (OtherImpl 7) 0))) = OtherImpl 7"
    by (simp add: demo_defs)
  have c: "ctrl (demo_state False (OtherImpl 7) 0) =
             \<lparr>ExecutionError = None, resultError = None, Tx = Some demo_tx,
              Sender = \<lparr>Account = Some (AccountAt ''TXYZ'')\<rparr>,
              Behavior = \<lparr>DryRun = False, SigningImpl = OtherImpl 7, ConfirmationWaitTime = 0\<rparr>,
              Result = None, Receipt = None\<rparr>"
    and t: "trace (demo_state False (OtherImpl 7) 0) = []"
    by (simp_all add: demo_state_def NewController_def)
  show ?thesis
    using h C10_unknown_signer [OF h, of demo_env]
    by (simp add: c t new_events_def and_then_def SendSignedTx_def TxConfirmation_def
          call_def demo_env_def Let_def)
qed

end
